theory Spec2Isabelle
  imports Complex_Main "HOL-Library.Sublist" "HOL-Library.AList"
begin

section \<open>Echo stems plugin: the job orchestration layer of \<open>plugins/stems/app.py\<close>\<close>

text \<open>
  The module keeps three pieces of mutable state: the global \<open>separator\<close> (the loaded model,
  or \<open>None\<close>), the dictionary \<open>jobs\<close> from job id to \<open>JobStatus\<close>, and the files below
  \<open>DATA_DIR\<close>. Every handler and the background worker \<open>process_separation\<close> are
  coroutines on one event loop; the worker's body contains no \<open>await\<close>, so it runs from its
  first to its last statement without any other handler in between. The embedding therefore
  takes each handler and the worker as one function from state to state.

  Calls into torchaudio, Demucs and the operating system are not part of the module. Their
  outcome (a value, or an exception with its message) is an input of the model.
  Exceptions are the subclasses of \<open>Exception\<close>, which is what \<open>except Exception\<close> catches.
\<close>

subsection \<open>Exceptions\<close>

datatype exn =
    KeyError string          \<comment> \<open>\<open>jobs[job_id]\<close> on a missing key\<close>
  | RuntimeError string      \<comment> \<open>\<open>raise RuntimeError("Model not loaded")\<close>\<close>
  | FileExistsError string   \<comment> \<open>\<open>mkdir(exist_ok=True)\<close> on a path that is a file\<close>
  | IsADirectoryError string \<comment> \<open>\<open>unlink\<close> or \<open>open(.., "wb")\<close> on a directory\<close>
  | NotADirectoryError string\<comment> \<open>\<open>shutil.rmtree\<close> on a file\<close>
  | IndexError string        \<comment> \<open>\<open>sources[0, i]\<close> beyond the model's output\<close>
  | Raised string            \<comment> \<open>any exception of an external call, by its message\<close>

text \<open>\<open>str(e)\<close>. For a \<open>KeyError\<close> Python renders the \<open>repr\<close> of the key.\<close>

fun str_exn :: "exn \<Rightarrow> string" where
  "str_exn (KeyError k) = CHR 0x27 # k @ [CHR 0x27]"
| "str_exn (RuntimeError m) = m"
| "str_exn (FileExistsError m) = m"
| "str_exn (IsADirectoryError m) = m"
| "str_exn (NotADirectoryError m) = m"
| "str_exn (IndexError m) = m"
| "str_exn (Raised m) = m"

subsection \<open>Data model\<close>

text \<open>
  \<open>class JobStatus(BaseModel)\<close>. The \<open>dict\<close> of stems is an association list from stem
  name to path, in insertion order; \<open>progress\<close> holds the literals 0.0, 0.2, 0.8 and 1.0 only,
  which compare as floats the way they do as reals.
\<close>

record job_status =
  job_id :: string
  status :: string
  progress :: "real option"
  error :: "string option"
  stems :: "(string \<times> string) list option"

text \<open>What the module reads of the Demucs model: \<open>separator.samplerate\<close>, \<open>separator.sources\<close>.\<close>

record model =
  samplerate :: nat
  sources :: "string list"

text \<open>A waveform is a tensor of shape \<open>[channels, time]\<close>: a list of channels.\<close>

type_synonym 'a waveform = "'a list list"

subsection \<open>Normalisation of the loaded audio (lines 136 to 146)\<close>

text \<open>
  \<open>torchaudio.transforms.Resample(sample_rate, separator.samplerate)(waveform)\<close> is external:
  \<open>rs\<close> stands for it, and may raise.
\<close>

definition resample_if_needed ::
  "(nat \<Rightarrow> nat \<Rightarrow> 'a waveform \<Rightarrow> exn + 'a waveform) \<Rightarrow> nat \<Rightarrow> model \<Rightarrow> 'a waveform
     \<Rightarrow> exn + 'a waveform" where
  "resample_if_needed rs sample_rate m waveform =
     (if sample_rate \<noteq> samplerate m then rs sample_rate (samplerate m) waveform
      else Inr waveform)"

text \<open>
  \<open>waveform.repeat(2, 1)\<close> tiles the tensor twice along the channel axis;
  \<open>waveform[:2]\<close> keeps the first two channels.
\<close>

definition ensure_stereo :: "'a waveform \<Rightarrow> 'a waveform" where
  "ensure_stereo waveform =
     (if length waveform = 1 then waveform @ waveform
      else if length waveform > 2 then take 2 waveform
      else waveform)"

definition normalize ::
  "(nat \<Rightarrow> nat \<Rightarrow> 'a waveform \<Rightarrow> exn + 'a waveform) \<Rightarrow> nat \<Rightarrow> model \<Rightarrow> 'a waveform
     \<Rightarrow> exn + 'a waveform" where
  "normalize rs sample_rate m waveform =
     (case resample_if_needed rs sample_rate m waveform of
        Inl e \<Rightarrow> Inl e
      | Inr w \<Rightarrow> Inr (ensure_stereo w))"

subsection \<open>Files\<close>

text \<open>
  The files below \<open>DATA_DIR\<close>, by path. A file holds the uploaded bytes, the WAV encoding of a
  stem at a sample rate, or whatever a write that failed half-way left behind.
\<close>

type_synonym bytes = "nat list"

datatype content = Uploaded bytes | Wav "real waveform" nat | Partial

datatype node = File content | Dir

type_synonym filesystem = "string \<rightharpoonup> node"

text \<open>
  \<open>Path / str\<close>. The right operands in this module are the literals \<open>input\<close> and
  \<open>output\<close>, a job id, a file name that starts with the job id, and a stem file name.
\<close>

definition path_join :: "string \<Rightarrow> string \<Rightarrow> string" where
  "path_join p q = p @ ''/'' @ q"

text \<open>
  \<open>Path.exists()\<close> answers \<open>False\<close> when the path is not there and re-raises any other
  error of the \<open>stat\<close> call, for instance when a directory on the way may not be searched.
  \<open>err\<close> is that exception, if any.
\<close>

definition exists :: "exn option \<Rightarrow> filesystem \<Rightarrow> string \<Rightarrow> exn + bool" where
  "exists err fs p = (case err of Some e \<Rightarrow> Inl e | None \<Rightarrow> Inr (fs p \<noteq> None))"

text \<open>
  The operating system decides whether a file operation fails. Its decision is an argument:
  for a write, whether it fails and whether a partial file stays; for the other operations the
  exception, if any.
\<close>

datatype write_outcome = WriteOk | WriteFailed exn bool

text \<open>\<open>open(path, "wb")\<close> and \<open>write\<close>; \<open>torchaudio.save(path, ..)\<close>.\<close>

definition write_file ::
  "write_outcome \<Rightarrow> string \<Rightarrow> content \<Rightarrow> filesystem \<Rightarrow> (exn \<times> filesystem) + filesystem" where
  "write_file outcome p c fs =
     (case outcome of
        WriteFailed e partial \<Rightarrow> Inl (e, if partial then fs(p \<mapsto> File Partial) else fs)
      | WriteOk \<Rightarrow>
          (case fs p of
             Some Dir \<Rightarrow> Inl (IsADirectoryError p, fs)
           | _ \<Rightarrow> Inr (fs(p \<mapsto> File c))))"

text \<open>
  \<open>output_dir.mkdir(parents=True, exist_ok=True)\<close>. The parent \<open>DATA_DIR/output\<close> is made
  when the module is imported.
\<close>

definition mkdir :: "exn option \<Rightarrow> string \<Rightarrow> filesystem \<Rightarrow> exn + filesystem" where
  "mkdir err p fs =
     (case err of
        Some e \<Rightarrow> Inl e
      | None \<Rightarrow>
          (case fs p of
             Some (File c) \<Rightarrow> Inl (FileExistsError p)
           | Some Dir \<Rightarrow> Inr fs
           | None \<Rightarrow> Inr (fs(p \<mapsto> Dir))))"

text \<open>\<open>input_path.unlink(missing_ok=True)\<close>\<close>

definition unlink_missing_ok :: "exn option \<Rightarrow> string \<Rightarrow> filesystem \<Rightarrow> exn + filesystem" where
  "unlink_missing_ok err p fs =
     (case err of
        Some e \<Rightarrow> Inl e
      | None \<Rightarrow>
          (case fs p of
             None \<Rightarrow> Inr fs
           | Some Dir \<Rightarrow> Inl (IsADirectoryError p)
           | Some (File c) \<Rightarrow> Inr (fs(p := None))))"

text \<open>
  \<open>shutil.rmtree(output_dir)\<close> removes the directory and everything below it. When it fails,
  the entries below the directory that it had already removed are gone.
\<close>

datatype rmtree_outcome = RmtreeOk | RmtreeFailed exn "string list"

definition below :: "string \<Rightarrow> string \<Rightarrow> bool" where
  "below d p \<longleftrightarrow> prefix (d @ ''/'') p"

definition rmtree ::
  "rmtree_outcome \<Rightarrow> string \<Rightarrow> filesystem \<Rightarrow> (exn \<times> filesystem) + filesystem" where
  "rmtree outcome d fs =
     (case outcome of
        RmtreeFailed e gone \<Rightarrow> Inl (e, (\<lambda>p. if p \<in> set gone \<and> below d p then None else fs p))
      | RmtreeOk \<Rightarrow>
          (case fs d of
             Some (File c) \<Rightarrow> Inl (NotADirectoryError d, fs)
           | _ \<Rightarrow> Inr (\<lambda>p. if p = d \<or> below d p then None else fs p)))"

subsection \<open>Module state\<close>

record state =
  separator :: "model option"
  jobs :: "string \<rightharpoonup> job_status"
  files :: filesystem

text \<open>
  Module level (lines 33 to 38 and 57): the three directories are made, \<open>separator = None\<close>,
  \<open>jobs = {}\<close>.
\<close>

definition module_state :: "string \<Rightarrow> filesystem \<Rightarrow> state" where
  "module_state DATA_DIR fs0 =
     \<lparr>separator = None, jobs = Map.empty,
      files = fs0(DATA_DIR \<mapsto> Dir, path_join DATA_DIR ''input'' \<mapsto> Dir,
                  path_join DATA_DIR ''output'' \<mapsto> Dir)\<rparr>"

text \<open>
  \<open>lifespan\<close> up to its \<open>yield\<close>: \<open>separator = get_model(MODEL_NAME)\<close> inside a \<open>try\<close> whose
  handler only logs. \<open>loaded\<close> is what \<open>get_model\<close> did.
\<close>

definition lifespan :: "exn + model \<Rightarrow> state \<Rightarrow> state" where
  "lifespan loaded s = (case loaded of Inr m \<Rightarrow> s\<lparr>separator := Some m\<rparr> | Inl e \<Rightarrow> s)"

text \<open>\<open>jobs[job_id].field = v\<close>: a \<open>KeyError\<close> when the job is not in the dictionary.\<close>

definition update_job ::
  "string \<Rightarrow> (job_status \<Rightarrow> job_status) \<Rightarrow> state \<Rightarrow> (exn \<times> state) + state" where
  "update_job jid f s =
     (case jobs s jid of
        None \<Rightarrow> Inl (KeyError jid, s)
      | Some job \<Rightarrow> Inr (s\<lparr>jobs := (jobs s)(jid \<mapsto> f job)\<rparr>))"

subsection \<open>The worker \<open>process_separation\<close> (lines 117 to 184)\<close>

text \<open>What the external calls of one run of the worker do.\<close>

record worker_env =
  torchaudio_load :: "exn + (real waveform \<times> nat)"
  torchaudio_resample :: "nat \<Rightarrow> nat \<Rightarrow> real waveform \<Rightarrow> exn + real waveform"
  tensor_to_device :: "exn option"
  apply_model :: "real waveform \<Rightarrow> exn + real waveform list"
  mkdir_error :: "exn option"
  torchaudio_save :: "nat \<Rightarrow> write_outcome"
  unlink_error :: "exn option"

text \<open>Lines 122 to 126: the job becomes \<open>processing\<close> at progress 0.0; the model must be there.\<close>

definition start_processing :: "string \<Rightarrow> state \<Rightarrow> (exn \<times> state) + (state \<times> model)" where
  "start_processing jid s =
     (case update_job jid (\<lambda>j. j\<lparr>status := ''processing''\<rparr>) s of
        Inl x \<Rightarrow> Inl x
      | Inr s1 \<Rightarrow>
          (case update_job jid (\<lambda>j. j\<lparr>progress := Some 0.0\<rparr>) s1 of
             Inl x \<Rightarrow> Inl x
           | Inr s2 \<Rightarrow>
               (case separator s2 of
                  None \<Rightarrow> Inl (RuntimeError ''Model not loaded'', s2)
                | Some m \<Rightarrow> Inr (s2, m))))"

text \<open>Lines 134 to 149: load, resample, stereo, batch dimension and device.\<close>

definition load_audio :: "worker_env \<Rightarrow> model \<Rightarrow> exn + real waveform" where
  "load_audio env m =
     (case torchaudio_load env of
        Inl e \<Rightarrow> Inl e
      | Inr (waveform, sample_rate) \<Rightarrow>
          (case normalize (torchaudio_resample env) sample_rate m waveform of
             Inl e \<Rightarrow> Inl e
           | Inr w \<Rightarrow>
               (case tensor_to_device env of
                  Some e \<Rightarrow> Inl e
                | None \<Rightarrow> Inr w)))"

text \<open>Lines 134 to 151: the audio is loaded and normalised, then progress 0.2.\<close>

definition load_and_report ::
  "worker_env \<Rightarrow> string \<Rightarrow> model \<Rightarrow> state \<Rightarrow> (exn \<times> state) + (state \<times> real waveform)" where
  "load_and_report env jid m s =
     (case load_audio env m of
        Inl e \<Rightarrow> Inl (e, s)
      | Inr w \<Rightarrow>
          (case update_job jid (\<lambda>j. j\<lparr>progress := Some 0.2\<rparr>) s of
             Inl x \<Rightarrow> Inl x
           | Inr s3 \<Rightarrow> Inr (s3, w)))"

text \<open>Lines 155 to 158: the model runs on the normalised audio, then progress 0.8.\<close>

definition separate_and_report ::
  "worker_env \<Rightarrow> string \<Rightarrow> real waveform \<Rightarrow> state
     \<Rightarrow> (exn \<times> state) + (state \<times> real waveform list)" where
  "separate_and_report env jid w s3 =
     (case apply_model env w of
        Inl e \<Rightarrow> Inl (e, s3)
      | Inr srcs \<Rightarrow>
          (case update_job jid (\<lambda>j. j\<lparr>progress := Some 0.8\<rparr>) s3 of
             Inl x \<Rightarrow> Inl x
           | Inr s4 \<Rightarrow> Inr (s4, srcs)))"

text \<open>Lines 134 to 158, one after the other.\<close>

definition run_model ::
  "worker_env \<Rightarrow> string \<Rightarrow> model \<Rightarrow> state \<Rightarrow> (exn \<times> state) + (state \<times> real waveform list)" where
  "run_model env jid m s =
     (case load_and_report env jid m s of
        Inl x \<Rightarrow> Inl x
      | Inr (s3, w) \<Rightarrow> separate_and_report env jid w s3)"

text \<open>
  Lines 165 to 170: the loop over \<open>enumerate(separator.sources)\<close>. \<open>srcs\<close> is \<open>sources[0]\<close>,
  one waveform per source of the model's output; \<open>sources[0, i]\<close> raises beyond it.
\<close>

fun save_stems ::
  "worker_env \<Rightarrow> string \<Rightarrow> nat \<Rightarrow> real waveform list \<Rightarrow> (nat \<times> string) list
     \<Rightarrow> (string \<times> string) list \<Rightarrow> filesystem
     \<Rightarrow> (exn \<times> filesystem) + ((string \<times> string) list \<times> filesystem)" where
  "save_stems env output_dir rate srcs [] stems_acc fs = Inr (stems_acc, fs)"
| "save_stems env output_dir rate srcs ((i, stem_name) # rest) stems_acc fs =
     (let stem_path = path_join output_dir (stem_name @ ''.wav'') in
      if length srcs \<le> i then Inl (IndexError ''index out of range'', fs)
      else
        (case write_file (torchaudio_save env i) stem_path (Wav (srcs ! i) rate) fs of
           Inl x \<Rightarrow> Inl x
         | Inr fs' \<Rightarrow>
             save_stems env output_dir rate srcs rest
               (AList.update stem_name stem_path stems_acc) fs'))"

text \<open>Lines 162 to 173: the output directory, the stems, then the input file is removed.\<close>

definition write_outputs ::
  "worker_env \<Rightarrow> string \<Rightarrow> string \<Rightarrow> model \<Rightarrow> real waveform list \<Rightarrow> filesystem
     \<Rightarrow> (exn \<times> filesystem) + ((string \<times> string) list \<times> filesystem)" where
  "write_outputs env input_path output_dir m srcs fs =
     (case mkdir (mkdir_error env) output_dir fs of
        Inl e \<Rightarrow> Inl (e, fs)
      | Inr fs1 \<Rightarrow>
          (case save_stems env output_dir (samplerate m) srcs (enumerate 0 (sources m)) [] fs1 of
             Inl x \<Rightarrow> Inl x
           | Inr (stems_acc, fs2) \<Rightarrow>
               (case unlink_missing_ok (unlink_error env) input_path fs2 of
                  Inl e \<Rightarrow> Inl (e, fs2)
                | Inr fs3 \<Rightarrow> Inr (stems_acc, fs3))))"

text \<open>Lines 175 to 177.\<close>

definition mark_completed ::
  "string \<Rightarrow> (string \<times> string) list \<Rightarrow> state \<Rightarrow> (exn \<times> state) + state" where
  "mark_completed jid stems_acc s =
     (case update_job jid (\<lambda>j. j\<lparr>status := ''completed''\<rparr>) s of
        Inl x \<Rightarrow> Inl x
      | Inr s1 \<Rightarrow>
          (case update_job jid (\<lambda>j. j\<lparr>progress := Some 1.0\<rparr>) s1 of
             Inl x \<Rightarrow> Inl x
           | Inr s2 \<Rightarrow> update_job jid (\<lambda>j. j\<lparr>stems := Some stems_acc\<rparr>) s2))"

text \<open>The body of the \<open>try\<close>: \<open>Inl (e, s)\<close> when \<open>e\<close> was raised with the state at \<open>s\<close>.\<close>

definition process_separation_try ::
  "worker_env \<Rightarrow> string \<Rightarrow> string \<Rightarrow> string \<Rightarrow> state \<Rightarrow> (exn \<times> state) + state" where
  "process_separation_try env jid input_path output_dir s =
     (case start_processing jid s of
        Inl x \<Rightarrow> Inl x
      | Inr (s2, m) \<Rightarrow>
          (case run_model env jid m s2 of
             Inl x \<Rightarrow> Inl x
           | Inr (s4, srcs) \<Rightarrow>
               (case write_outputs env input_path output_dir m srcs (files s4) of
                  Inl (e, fs) \<Rightarrow> Inl (e, s4\<lparr>files := fs\<rparr>)
                | Inr (stems_acc, fs) \<Rightarrow> mark_completed jid stems_acc (s4\<lparr>files := fs\<rparr>))))"

text \<open>
  Lines 181 to 184, the handler of \<open>except Exception\<close>. Its two assignments are outside any
  \<open>try\<close>: an exception there leaves the worker.
\<close>

definition mark_failed :: "string \<Rightarrow> exn \<Rightarrow> state \<Rightarrow> (exn \<times> state) + state" where
  "mark_failed jid e s =
     (case update_job jid (\<lambda>j. j\<lparr>status := ''failed''\<rparr>) s of
        Inl x \<Rightarrow> Inl x
      | Inr s1 \<Rightarrow> update_job jid (\<lambda>j. j\<lparr>error := Some (str_exn e)\<rparr>) s1)"

text \<open>The worker: the exception that leaves it, if any, and the state it leaves behind.\<close>

definition process_separation ::
  "worker_env \<Rightarrow> string \<Rightarrow> string \<Rightarrow> string \<Rightarrow> state \<Rightarrow> exn option \<times> state" where
  "process_separation env jid input_path output_dir s =
     (case process_separation_try env jid input_path output_dir s of
        Inr s' \<Rightarrow> (None, s')
      | Inl (e, s1) \<Rightarrow>
          (case mark_failed jid e s1 of
             Inl (e', s2) \<Rightarrow> (Some e', s2)
           | Inr s2 \<Rightarrow> (None, s2)))"


subsection \<open>The handlers\<close>

text \<open>
  A handler ends with a response, with an \<open>HTTPException\<close>, or with an exception nobody
  caught, which the framework answers as an internal server error.
\<close>

datatype failure = HTTPException nat string | Unhandled exn

datatype response =
    Json "(string \<times> string) list"
  | Record job_status
  | FileResponse string string string  \<comment> \<open>path, \<open>media_type\<close>, \<open>filename\<close>\<close>

text \<open>The arguments of \<open>add_task\<close>: job id, input path, output directory.\<close>

type_synonym task = "string \<times> string \<times> string"

text \<open>The upload: \<open>file.filename\<close> and what \<open>await file.read()\<close> does.\<close>

record upload =
  filename :: string
  read_result :: "exn + bytes"

text \<open>
  \<open>separate_audio\<close> (lines 187 to 228). \<open>jid\<close> is the string \<open>uuid.uuid4()\<close> returns and
  \<open>outcome\<close> what the write does. The result carries the task given to \<open>add_task\<close>.
\<close>

definition separate_audio ::
  "string \<Rightarrow> string \<Rightarrow> upload \<Rightarrow> write_outcome \<Rightarrow> state
     \<Rightarrow> (failure + (response \<times> task)) \<times> state" where
  "separate_audio DATA_DIR jid file outcome s =
     (if separator s = None then (Inl (HTTPException 503 ''Model not loaded''), s)
      else
        (let input_dir = path_join DATA_DIR ''input'';
             input_path = path_join input_dir (jid @ ''_'' @ filename file)
         in case (case read_result file of
                    Inl e \<Rightarrow> Inl (e, files s)
                  | Inr content \<Rightarrow> write_file outcome input_path (Uploaded content) (files s)) of
              Inl (e, fs) \<Rightarrow>
                (Inl (HTTPException 500 (''Failed to save file: '' @ str_exn e)), s\<lparr>files := fs\<rparr>)
            | Inr fs \<Rightarrow>
                (let output_dir = path_join (path_join DATA_DIR ''output'') jid;
                     job = \<lparr>job_id = jid, status = ''pending'', progress = Some 0.0,
                            error = None, stems = None\<rparr>
                 in (Inr (Json [(''job_id'', jid), (''status'', ''pending'')],
                          (jid, input_path, output_dir)),
                     s\<lparr>files := fs, jobs := (jobs s)(jid \<mapsto> job)\<rparr>))))"

text \<open>\<open>get_job_status\<close> (lines 231 to 237)\<close>

definition get_job_status :: "string \<Rightarrow> state \<Rightarrow> failure + response" where
  "get_job_status jid s =
     (case jobs s jid of
        None \<Rightarrow> Inl (HTTPException 404 ''Job not found'')
      | Some job \<Rightarrow> Inr (Record job))"

text \<open>
  \<open>download_stem\<close> (lines 240 to 263). \<open>not job.stems\<close> holds for \<open>None\<close> and for the empty
  dictionary; \<open>check\<close> is what the \<open>stat\<close> call of \<open>stem_path.exists()\<close> raises, if anything.
\<close>

definition download_stem ::
  "string \<Rightarrow> string \<Rightarrow> exn option \<Rightarrow> state \<Rightarrow> failure + response" where
  "download_stem jid stem_name check s =
     (case jobs s jid of
        None \<Rightarrow> Inl (HTTPException 404 ''Job not found'')
      | Some job \<Rightarrow>
          if status job \<noteq> ''completed''
          then Inl (HTTPException 400 (''Job not completed: '' @ status job))
          else if stems job = None \<or> stems job = Some []
                  \<or> map_of (the (stems job)) stem_name = None
          then Inl (HTTPException 404
                      (''Stem '' @ [CHR 0x27] @ stem_name @ [CHR 0x27] @ '' not found''))
          else
            (let stem_path = the (map_of (the (stems job)) stem_name)
             in case exists check (files s) stem_path of
                  Inl e \<Rightarrow> Inl (Unhandled e)
                | Inr found \<Rightarrow>
                    if \<not> found
                    then Inl (HTTPException 404 ''Stem file not found'')
                    else Inr (FileResponse stem_path ''audio/wav'' (stem_name @ ''.wav''))))"

text \<open>
  \<open>delete_job\<close> (lines 266 to 283). \<open>check\<close> is what the \<open>stat\<close> call of
  \<open>output_dir.exists()\<close> raises, if anything, and \<open>outcome\<close> what \<open>shutil.rmtree\<close> does if
  called.
\<close>

definition delete_job ::
  "string \<Rightarrow> string \<Rightarrow> exn option \<Rightarrow> rmtree_outcome \<Rightarrow> state
     \<Rightarrow> (failure + response) \<times> state" where
  "delete_job DATA_DIR jid check outcome s =
     (if jobs s jid = None then (Inl (HTTPException 404 ''Job not found''), s)
      else
        (let output_dir = path_join (path_join DATA_DIR ''output'') jid
         in case exists check (files s) output_dir of
              Inl e \<Rightarrow> (Inl (Unhandled e), s)
            | Inr found \<Rightarrow>
                (case (if found then rmtree outcome output_dir (files s) else Inr (files s)) of
                   Inl (e, fs) \<Rightarrow> (Inl (Unhandled e), s\<lparr>files := fs\<rparr>)
                 | Inr fs \<Rightarrow>
                     (Inr (Json [(''status'', ''deleted''), (''job_id'', jid)]),
                      s\<lparr>files := fs, jobs := (jobs s)(jid := None)\<rparr>))))"

subsection \<open>The running service\<close>

text \<open>
  The service is the module state, the background tasks that were dispatched and have not run
  yet, and the job ids drawn so far. \<open>uuid.uuid4()\<close> is taken to return an id it has not
  returned before; \<open>issued\<close> records the ids for that purpose and is not read by the program.
\<close>

record world =
  prog :: state
  queue :: "task list"
  issued :: "string list"

definition boot :: "string \<Rightarrow> filesystem \<Rightarrow> exn + model \<Rightarrow> world" where
  "boot DATA_DIR fs0 loaded =
     \<lparr>prog = lifespan loaded (module_state DATA_DIR fs0), queue = [], issued = []\<rparr>"

text \<open>
  What the event loop does next: it runs one request handler, or one dispatched worker. Each
  runs without interruption: \<open>separate_audio\<close> suspends only at \<open>await file.read()\<close>,
  before it touches any state, and the other coroutines never suspend.
\<close>

datatype event =
    Submit string upload write_outcome
  | Work task worker_env
  | GetStatus string
  | Download string string "exn option"
  | Delete string "exn option" rmtree_outcome

text \<open>
  \<open>None\<close> when the event cannot happen: a job id drawn twice, a task that is not waiting.
  An exception that leaves a worker is logged by the framework and changes nothing else.
\<close>

fun fire :: "string \<Rightarrow> world \<Rightarrow> event \<Rightarrow> world option" where
  "fire DATA_DIR w (Submit jid file outcome) =
     (if jid \<in> set (issued w) then None
      else
        (case separate_audio DATA_DIR jid file outcome (prog w) of
           (Inl f, s') \<Rightarrow> Some (w\<lparr>prog := s', issued := jid # issued w\<rparr>)
         | (Inr (r, t), s') \<Rightarrow>
             Some (w\<lparr>prog := s', queue := queue w @ [t], issued := jid # issued w\<rparr>)))"
| "fire DATA_DIR w (Work t env) =
     (if t \<notin> set (queue w) then None
      else
        (case t of (jid, input_path, output_dir) \<Rightarrow>
           Some (w\<lparr>prog := snd (process_separation env jid input_path output_dir (prog w)),
                   queue := remove1 t (queue w)\<rparr>)))"
| "fire DATA_DIR w (GetStatus jid) = Some w"
| "fire DATA_DIR w (Download jid stem_name check) = Some w"
| "fire DATA_DIR w (Delete jid check outcome) =
     Some (w\<lparr>prog := snd (delete_job DATA_DIR jid check outcome (prog w))\<rparr>)"

fun run_events :: "string \<Rightarrow> world \<Rightarrow> event list \<Rightarrow> world option" where
  "run_events DATA_DIR w [] = Some w"
| "run_events DATA_DIR w (e # es) =
     (case fire DATA_DIR w e of
        None \<Rightarrow> None
      | Some w' \<Rightarrow> run_events DATA_DIR w' es)"


subsection \<open>Invariant of the running service\<close>

text \<open>The three shapes a job record has between events.\<close>

definition job_settled :: "job_status \<Rightarrow> bool" where
  "job_settled j \<longleftrightarrow>
     (status j = ''pending'' \<and> progress j = Some 0 \<and> error j = None \<and> stems j = None)
   \<or> (status j = ''completed'' \<and> progress j = Some 1 \<and> error j = None \<and> stems j \<noteq> None)
   \<or> (status j = ''failed'' \<and> progress j \<in> {Some 0, Some 0.2, Some 0.8}
        \<and> error j \<noteq> None \<and> stems j = None)"

text \<open>
  A waiting task belongs to an id that was drawn, and its job, unless deleted, is still as
  \<open>separate_audio\<close> made it; no two waiting tasks share a job id; every job in the dictionary
  has an id that was drawn; tasks wait only when the model is loaded.
\<close>

definition service_inv :: "world \<Rightarrow> bool" where
  "service_inv w \<longleftrightarrow>
     (\<forall>t \<in> set (queue w). fst t \<in> set (issued w)
         \<and> (\<forall>j. jobs (prog w) (fst t) = Some j \<longrightarrow>
               status j = ''pending'' \<and> progress j = Some 0 \<and> error j = None \<and> stems j = None))
   \<and> distinct (map fst (queue w))
   \<and> dom (jobs (prog w)) \<subseteq> set (issued w)
   \<and> (queue w \<noteq> [] \<longrightarrow> separator (prog w) \<noteq> None)
   \<and> (\<forall>jid j. jobs (prog w) jid = Some j \<longrightarrow> job_settled j)"


subsection \<open>A small run of the service\<close>

text \<open>
  A model with two sources, an upload, and external calls that all succeed: a mono recording
  at the model's rate, a model that answers with one waveform per source.
\<close>

definition example_model :: model where
  "example_model = \<lparr>samplerate = 44100, sources = [''vocals'', ''drums'']\<rparr>"

definition example_upload :: upload where
  "example_upload = \<lparr>filename = ''a.wav'', read_result = Inr [82, 73, 70, 70]\<rparr>"

definition example_env :: worker_env where
  "example_env =
     \<lparr>torchaudio_load = Inr ([[0.5, 0.25]], 44100),
      torchaudio_resample = (\<lambda>a b w. Inr w),
      tensor_to_device = None,
      apply_model = (\<lambda>w. Inr [w, w]),
      mkdir_error = None,
      torchaudio_save = (\<lambda>i. WriteOk),
      unlink_error = None\<rparr>"

text \<open>The same, with a recording that does not decode.\<close>

definition example_env_undecodable :: worker_env where
  "example_env_undecodable =
     example_env\<lparr>torchaudio_load := Inl (Raised ''Format not recognised'')\<rparr>"


definition example_task :: task where
  "example_task = (''j1'', ''/d/input/j1_a.wav'', ''/d/output/j1'')"

definition example_boot :: world where
  "example_boot = boot ''/d'' Map.empty (Inr example_model)"

text \<open>The service after the upload, and after the worker of that job has run.\<close>

definition example_submitted :: world where
  "example_submitted =
     the (run_events ''/d'' example_boot [Submit ''j1'' example_upload WriteOk])"

definition example_completed :: world where
  "example_completed =
     the (run_events ''/d'' example_boot
            [Submit ''j1'' example_upload WriteOk, Work example_task example_env])"

text \<open>The completed job, with one of its stem files removed from the disk behind its back.\<close>

definition example_drifted :: state where
  "example_drifted =
     (prog example_completed)
       \<lparr>files := (files (prog example_completed))(''/d/output/j1/vocals.wav'' := None)\<rparr>"

definition example_failed :: world where
  "example_failed =
     the (run_events ''/d'' example_boot
            [Submit ''j1'' example_upload WriteOk, Work example_task example_env_undecodable])"


section \<open>Properties\<close>

subsection \<open>The worker, step by step\<close>

lemma update_job_Some:
  "jobs s jid = Some r \<Longrightarrow> update_job jid f s = Inr (s\<lparr>jobs := (jobs s)(jid \<mapsto> f r)\<rparr>)"
  by (simp add: update_job_def)

lemma update_job_None: "jobs s jid = None \<Longrightarrow> update_job jid f s = Inl (KeyError jid, s)"
  by (simp add: update_job_def)

lemma start_processing_present:
  "jobs s jid = Some r \<Longrightarrow>
   start_processing jid s =
     (let s2 = s\<lparr>jobs := (jobs s)(jid \<mapsto> r\<lparr>status := ''processing'', progress := Some 0\<rparr>)\<rparr>
      in case separator s of None \<Rightarrow> Inl (RuntimeError ''Model not loaded'', s2)
         | Some m \<Rightarrow> Inr (s2, m))"
  by (simp add: start_processing_def update_job_Some split: option.splits)

lemma start_processing_absent:
  "jobs s jid = None \<Longrightarrow> start_processing jid s = Inl (KeyError jid, s)"
  by (simp add: start_processing_def update_job_None)

lemma run_model_present:
  "jobs s jid = Some r \<Longrightarrow>
   run_model env jid m s =
     (case load_audio env m of
        Inl e \<Rightarrow> Inl (e, s)
      | Inr w \<Rightarrow>
          (case apply_model env w of
             Inl e \<Rightarrow> Inl (e, s\<lparr>jobs := (jobs s)(jid \<mapsto> r\<lparr>progress := Some 0.2\<rparr>)\<rparr>)
           | Inr srcs \<Rightarrow> Inr (s\<lparr>jobs := (jobs s)(jid \<mapsto> r\<lparr>progress := Some 0.8\<rparr>)\<rparr>, srcs)))"
  by (simp add: run_model_def load_and_report_def separate_and_report_def update_job_Some
      split: sum.splits)

lemma mark_completed_present:
  "jobs s jid = Some r \<Longrightarrow>
   mark_completed jid st s =
     Inr (s\<lparr>jobs := (jobs s)(jid \<mapsto> r\<lparr>status := ''completed'', progress := Some 1,
                                          stems := Some st\<rparr>)\<rparr>)"
  by (simp add: mark_completed_def update_job_Some)

lemma mark_failed_present:
  "jobs s jid = Some r \<Longrightarrow>
   mark_failed jid e s =
     Inr (s\<lparr>jobs := (jobs s)(jid \<mapsto> r\<lparr>status := ''failed'', error := Some (str_exn e)\<rparr>)\<rparr>)"
  by (simp add: mark_failed_def update_job_Some)

lemma mark_failed_absent:
  "jobs s jid = None \<Longrightarrow> mark_failed jid e s = Inl (KeyError jid, s)"
  by (simp add: mark_failed_def update_job_None)

lemma process_separation_absent:
  "jobs s jid = None \<Longrightarrow>
   process_separation env jid input_path output_dir s = (Some (KeyError jid), s)"
  by (simp add: process_separation_def process_separation_try_def start_processing_absent
      mark_failed_absent)

lemma process_separation_present:
  assumes "jobs s jid = Some r"
  shows "process_separation env jid input_path output_dir s =
    (None,
     let r0 = r\<lparr>status := ''processing'', progress := Some 0\<rparr>;
         failed = (\<lambda>r' e s'. s'\<lparr>jobs := (jobs s)(jid \<mapsto> r'\<lparr>status := ''failed'', error := Some (str_exn e)\<rparr>)\<rparr>)
     in case separator s of
          None \<Rightarrow> failed r0 (RuntimeError ''Model not loaded'') s
        | Some m \<Rightarrow>
           (case load_audio env m of
              Inl e \<Rightarrow> failed r0 e s
            | Inr w \<Rightarrow>
               (case apply_model env w of
                  Inl e \<Rightarrow> failed (r0\<lparr>progress := Some 0.2\<rparr>) e s
                | Inr srcs \<Rightarrow>
                   (case write_outputs env input_path output_dir m srcs (files s) of
                      Inl (e, fs) \<Rightarrow> failed (r0\<lparr>progress := Some 0.8\<rparr>) e (s\<lparr>files := fs\<rparr>)
                    | Inr (st, fs) \<Rightarrow>
                        s\<lparr>files := fs,
                          jobs := (jobs s)(jid \<mapsto> r0\<lparr>status := ''completed'', progress := Some 1,
                                                     stems := Some st\<rparr>)\<rparr>))))"
proof (cases "separator s")
  case None
  with assms show ?thesis
    by (simp add: process_separation_def process_separation_try_def start_processing_present
        mark_failed_present)
next
  case (Some m)
  note sep = this
  show ?thesis
  proof (cases "load_audio env m")
    case (Inl e)
    with assms sep show ?thesis
      by (simp add: process_separation_def process_separation_try_def start_processing_present
          run_model_present mark_failed_present)
  next
    case (Inr w)
    note ld = this
    show ?thesis
    proof (cases "apply_model env w")
      case (Inl e)
      with assms sep ld show ?thesis
        by (simp add: process_separation_def process_separation_try_def
            start_processing_present run_model_present mark_failed_present)
    next
      case (Inr srcs)
      note ap = this
      show ?thesis
      proof (cases "write_outputs env input_path output_dir m srcs (files s)")
        case (Inl x)
        then obtain e fs where "write_outputs env input_path output_dir m srcs (files s) = Inl (e, fs)"
          by (cases x) simp
        with assms sep ld ap show ?thesis
          by (simp add: process_separation_def process_separation_try_def
              start_processing_present run_model_present mark_failed_present)
      next
        case (Inr y)
        then obtain st fs where "write_outputs env input_path output_dir m srcs (files s) = Inr (st, fs)"
          by (cases y) simp
        with assms sep ld ap show ?thesis
          by (simp add: process_separation_def process_separation_try_def
              start_processing_present run_model_present mark_completed_present)
      qed
    qed
  qed
qed

subsection \<open>What one event changes\<close>

lemma separate_audio_effect:
  "separate_audio DATA_DIR jid file outcome s = (res, s') \<Longrightarrow>
   separator s' = separator s \<and>
   ((\<exists>f. res = Inl f \<and> jobs s' = jobs s) \<or>
    (\<exists>r ip od. res = Inr (r, (jid, ip, od)) \<and> separator s \<noteq> None \<and>
       jobs s' = (jobs s)(jid \<mapsto> \<lparr>job_id = jid, status = ''pending'', progress = Some 0,
                                    error = None, stems = None\<rparr>)))"
  by (auto simp: separate_audio_def Let_def split: if_splits sum.splits prod.splits)

lemma delete_job_effect:
  "separator (snd (delete_job DATA_DIR jid check outcome s)) = separator s \<and>
   (jobs (snd (delete_job DATA_DIR jid check outcome s)) = jobs s \<or>
    jobs (snd (delete_job DATA_DIR jid check outcome s)) = (jobs s)(jid := None))"
  by (auto simp: delete_job_def Let_def split: if_splits sum.splits prod.splits)

lemma process_separation_effect:
  "separator (snd (process_separation env jid ip od s)) = separator s \<and>
   (case jobs s jid of
      None \<Rightarrow> jobs (snd (process_separation env jid ip od s)) = jobs s
    | Some r \<Rightarrow> \<exists>r'. jobs (snd (process_separation env jid ip od s)) = (jobs s)(jid \<mapsto> r') \<and>
        ((status r' = ''completed'' \<and> progress r' = Some 1 \<and> error r' = error r \<and> stems r' \<noteq> None)
       \<or> (status r' = ''failed'' \<and> progress r' \<in> {Some 0, Some 0.2, Some 0.8}
            \<and> error r' \<noteq> None \<and> stems r' = stems r)))"
proof (cases "jobs s jid")
  case None
  then show ?thesis by (simp add: process_separation_absent)
next
  case (Some r)
  show ?thesis
    unfolding process_separation_present [OF Some]
    using Some by (auto simp add: Let_def split: option.splits sum.splits prod.splits intro!: exI)
qed


lemma remove1_fst_distinct: "distinct (map fst q) \<Longrightarrow> distinct (map fst (remove1 t q))"
proof (induction q)
  case Nil
  then show ?case by simp
next
  case (Cons a q)
  have "set (remove1 t q) \<subseteq> set q" by (rule set_remove1_subset)
  with Cons show ?case by auto
qed

lemma remove1_other_id:
  "distinct (map fst q) \<Longrightarrow> t \<in> set q \<Longrightarrow> t' \<in> set (remove1 t q) \<Longrightarrow> fst t' \<noteq> fst t"
proof (induction q)
  case Nil
  then show ?case by simp
next
  case (Cons a q)
  show ?case
  proof (cases "t = a")
    case True
    with Cons.prems show ?thesis by (force simp: image_iff)
  next
    case False
    have sub: "set (remove1 t q) \<subseteq> set q" by (rule set_remove1_subset)
    from False Cons.prems have tq: "t \<in> set q" by simp
    from False Cons.prems have "t' = a \<or> t' \<in> set (remove1 t q)" by simp
    then show ?thesis
    proof
      assume "t' = a"
      with Cons.prems(1) tq show ?thesis by auto
    next
      assume "t' \<in> set (remove1 t q)"
      with Cons.IH Cons.prems(1) tq show ?thesis by simp
    qed
  qed
qed

lemma fire_submit_inv:
  assumes inv: "service_inv w" and f: "fire DATA_DIR w (Submit jid file outcome) = Some w'"
  shows "service_inv w'"
proof -
  from f have fresh: "jid \<notin> set (issued w)" by (simp split: if_splits)
  obtain res s' where sa: "separate_audio DATA_DIR jid file outcome (prog w) = (res, s')"
    by (cases "separate_audio DATA_DIR jid file outcome (prog w)")
  from separate_audio_effect [OF sa] have sep: "separator s' = separator (prog w)" by simp
  from inv fresh have nojob: "jobs (prog w) jid = None"
    by (auto simp: service_inv_def)
  from inv fresh have notask: "jid \<notin> fst ` set (queue w)"
    by (auto simp: service_inv_def)
  from separate_audio_effect [OF sa] consider
      (err) e where "res = Inl e" "jobs s' = jobs (prog w)"
    | (ok) r ip od where "res = Inr (r, (jid, ip, od))" "separator (prog w) \<noteq> None"
        "jobs s' = (jobs (prog w))(jid \<mapsto> \<lparr>job_id = jid, status = ''pending'', progress = Some 0,
                                    error = None, stems = None\<rparr>)"
    by blast
  then show ?thesis
  proof cases
    case err
    with f fresh sa have w': "w' = w\<lparr>prog := s', issued := jid # issued w\<rparr>" by simp
    from inv show ?thesis
      unfolding w' service_inv_def using err(2) sep by auto
  next
    case ok
    with f fresh sa have w': "w' = w\<lparr>prog := s', queue := queue w @ [(jid, ip, od)], issued := jid # issued w\<rparr>"
      by simp
    from inv show ?thesis
      unfolding w' service_inv_def using ok(2,3) sep nojob notask fresh
      by (auto simp: job_settled_def)
  qed
qed

lemma fire_work_inv:
  assumes inv: "service_inv w" and f: "fire DATA_DIR w (Work t env) = Some w'"
  shows "service_inv w'"
proof -
  obtain jid ip od where t: "t = (jid, ip, od)" by (cases t)
  from f have tq: "t \<in> set (queue w)" by (simp split: if_splits)
  let ?s' = "snd (process_separation env jid ip od (prog w))"
  from f tq t have w': "w' = w\<lparr>prog := ?s', queue := remove1 t (queue w)\<rparr>" by simp
  from inv have dist: "distinct (map fst (queue w))" by (simp add: service_inv_def)
  have others: "\<And>t'. t' \<in> set (remove1 t (queue w)) \<Longrightarrow> fst t' \<noteq> jid \<and> t' \<in> set (queue w)"
    using remove1_other_id [OF dist tq] t set_remove1_subset [of t "queue w"] by auto
  note eff = process_separation_effect [of env jid ip od "prog w"]
  from eff have sep: "separator ?s' = separator (prog w)" by simp
  show ?thesis
  proof (cases "jobs (prog w) jid")
    case None
    with eff have same: "jobs ?s' = jobs (prog w)" by simp
    from inv show ?thesis
      unfolding w' service_inv_def using same sep others remove1_fst_distinct [OF dist, of t] tq
      by auto
  next
    case (Some r)
    with inv tq t have fresh: "status r = ''pending''" "progress r = Some 0" "error r = None" "stems r = None"
      by (auto simp: service_inv_def)
    from eff Some obtain r' where r': "jobs ?s' = (jobs (prog w))(jid \<mapsto> r')"
       "(status r' = ''completed'' \<and> progress r' = Some 1 \<and> error r' = error r \<and> stems r' \<noteq> None)
       \<or> (status r' = ''failed'' \<and> progress r' \<in> {Some 0, Some 0.2, Some 0.8}
            \<and> error r' \<noteq> None \<and> stems r' = stems r)"
      by auto
    from r'(2) fresh have settled: "job_settled r'" by (auto simp: job_settled_def)
    from inv Some have dom: "jid \<in> set (issued w)" by (auto simp: service_inv_def)
    from inv show ?thesis
      unfolding w' service_inv_def using r'(1) settled sep others remove1_fst_distinct [OF dist, of t] tq dom
      by auto
  qed
qed

lemma fire_delete_inv:
  assumes inv: "service_inv w" and f: "fire DATA_DIR w (Delete jid check outcome) = Some w'"
  shows "service_inv w'"
proof -
  let ?s' = "snd (delete_job DATA_DIR jid check outcome (prog w))"
  from f have w': "w' = w\<lparr>prog := ?s'\<rparr>" by simp
  note eff = delete_job_effect [of DATA_DIR jid check outcome "prog w"]
  from eff have sep: "separator ?s' = separator (prog w)" by simp
  from eff have "jobs ?s' = jobs (prog w) \<or> jobs ?s' = (jobs (prog w))(jid := None)" by simp
  then show ?thesis
  proof
    assume "jobs ?s' = jobs (prog w)"
    with inv sep show ?thesis unfolding w' service_inv_def by auto
  next
    assume "jobs ?s' = (jobs (prog w))(jid := None)"
    with inv sep show ?thesis unfolding w' service_inv_def by (auto split: if_splits)
  qed
qed

lemma fire_inv: "service_inv w \<Longrightarrow> fire DATA_DIR w e = Some w' \<Longrightarrow> service_inv w'"
proof (cases e)
  case (Submit jid upl outcome)
  assume "service_inv w" "fire DATA_DIR w e = Some w'"
  with Submit show ?thesis using fire_submit_inv by blast
next
  case (Work t env)
  assume "service_inv w" "fire DATA_DIR w e = Some w'"
  with Work show ?thesis using fire_work_inv by blast
next
  case (GetStatus jid)
  assume "service_inv w" "fire DATA_DIR w e = Some w'"
  with GetStatus show ?thesis by simp
next
  case (Download jid n check)
  assume "service_inv w" "fire DATA_DIR w e = Some w'"
  with Download show ?thesis by simp
next
  case (Delete jid check outcome)
  assume "service_inv w" "fire DATA_DIR w e = Some w'"
  with Delete show ?thesis using fire_delete_inv by blast
qed

lemma run_events_inv:
  "service_inv w \<Longrightarrow> run_events DATA_DIR w es = Some w' \<Longrightarrow> service_inv w'"
proof (induction es arbitrary: w)
  case Nil
  then show ?case by simp
next
  case (Cons e es)
  from Cons.prems(2) obtain w1 where w1: "fire DATA_DIR w e = Some w1" "run_events DATA_DIR w1 es = Some w'"
    by (auto split: option.splits)
  from fire_inv [OF Cons.prems(1) w1(1)] Cons.IH w1(2) show ?case by blast
qed

lemma boot_inv: "service_inv (boot DATA_DIR fs0 loaded)"
  by (simp add: service_inv_def boot_def lifespan_def module_state_def split: sum.splits)

subsection \<open>The example run, and what holds in every run\<close>

lemmas example_defs = example_model_def example_upload_def example_env_def
  example_env_undecodable_def example_task_def example_boot_def

lemmas service_defs = boot_def lifespan_def module_state_def separate_audio_def
  write_file_def path_join_def process_separation_def process_separation_try_def
  start_processing_def update_job_def run_model_def load_and_report_def
  separate_and_report_def load_audio_def normalize_def
  resample_if_needed_def ensure_stereo_def write_outputs_def mkdir_def
  unlink_missing_ok_def mark_completed_def mark_failed_def enumerate_eq_zip Let_def

lemma example_submitted_run:
  "run_events ''/d'' example_boot [Submit ''j1'' example_upload WriteOk] = Some example_submitted"
  by (simp add: example_submitted_def example_defs service_defs)

lemma example_completed_run:
  "run_events ''/d'' example_boot
     [Submit ''j1'' example_upload WriteOk, Work example_task example_env] = Some example_completed"
  by (simp add: example_completed_def example_defs service_defs)

lemma example_failed_run:
  "run_events ''/d'' example_boot
     [Submit ''j1'' example_upload WriteOk, Work example_task example_env_undecodable]
   = Some example_failed"
  by (simp add: example_failed_def example_defs service_defs)


lemma example_submitted_job:
  "jobs (prog example_submitted) ''j1'' =
     Some \<lparr>job_id = ''j1'', status = ''pending'', progress = Some 0, error = None, stems = None\<rparr>"
  by (simp add: example_submitted_def example_defs service_defs)

lemma example_submitted_queue: "queue example_submitted = [example_task]"
  by (simp add: example_submitted_def example_defs service_defs)

lemma example_completed_job:
  "jobs (prog example_completed) ''j1'' =
     Some \<lparr>job_id = ''j1'', status = ''completed'', progress = Some 1, error = None,
           stems = Some [(''vocals'', ''/d/output/j1/vocals.wav''),
                         (''drums'', ''/d/output/j1/drums.wav'')]\<rparr>"
  by (simp add: example_completed_def example_defs service_defs)

lemma example_failed_job:
  "jobs (prog example_failed) ''j1'' =
     Some \<lparr>job_id = ''j1'', status = ''failed'', progress = Some 0,
           error = Some ''Format not recognised'', stems = None\<rparr>"
  by (simp add: example_failed_def example_defs service_defs)

lemma reachable_inv:
  "run_events DATA_DIR (boot DATA_DIR fs0 loaded) es = Some w \<Longrightarrow> service_inv w"
  using run_events_inv [OF boot_inv] by blast

lemma fire_separator: "fire DATA_DIR w e = Some w' \<Longrightarrow> separator (prog w') = separator (prog w)"
proof (cases e)
  case (Submit jid upl outcome)
  assume f: "fire DATA_DIR w e = Some w'"
  obtain res s' where sa: "separate_audio DATA_DIR jid upl outcome (prog w) = (res, s')"
    by (cases "separate_audio DATA_DIR jid upl outcome (prog w)")
  from separate_audio_effect [OF sa] have "separator s' = separator (prog w)" by simp
  with f Submit sa show ?thesis
    by (auto split: if_splits sum.splits prod.splits)
next
  case (Work t env)
  assume f: "fire DATA_DIR w e = Some w'"
  with Work show ?thesis
    using process_separation_effect by (auto split: if_splits prod.splits)
next
  case (GetStatus jid)
  assume "fire DATA_DIR w e = Some w'"
  with GetStatus show ?thesis by simp
next
  case (Download jid n check)
  assume "fire DATA_DIR w e = Some w'"
  with Download show ?thesis by simp
next
  case (Delete jid check outcome)
  assume "fire DATA_DIR w e = Some w'"
  with Delete show ?thesis using delete_job_effect by auto
qed

lemma run_events_separator:
  "run_events DATA_DIR w es = Some w' \<Longrightarrow> separator (prog w') = separator (prog w)"
proof (induction es arbitrary: w)
  case Nil
  then show ?case by simp
next
  case (Cons e es)
  then obtain w1 where "fire DATA_DIR w e = Some w1" "run_events DATA_DIR w1 es = Some w'"
    by (auto split: option.splits)
  with Cons.IH fire_separator show ?case by metis
qed

lemma boot_separator:
  "separator (prog (boot DATA_DIR fs0 loaded)) = (case loaded of Inl e \<Rightarrow> None | Inr m \<Rightarrow> Some m)"
  by (simp add: boot_def lifespan_def module_state_def split: sum.splits)

text \<open>
  Claim C2. Whenever the service is observed (after any sequence of requests and worker runs
  since startup), every job record in the dictionary has its error and stems fields in step
  with its status: a failed job has an error and no stems, a completed job has stems and no
  error, a job with any other status has neither; error and stems are never both set.
\<close>

theorem job_record_consistent:
  assumes "run_events DATA_DIR (boot DATA_DIR fs0 loaded) es = Some w"
      and "jobs (prog w) jid = Some j"
  shows "(status j = ''failed'' \<longrightarrow> error j \<noteq> None \<and> stems j = None)
       \<and> (status j = ''completed'' \<longrightarrow> stems j \<noteq> None \<and> error j = None)
       \<and> (status j \<noteq> ''failed'' \<and> status j \<noteq> ''completed'' \<longrightarrow> error j = None \<and> stems j = None)
       \<and> \<not> (error j \<noteq> None \<and> stems j \<noteq> None)"
proof -
  from reachable_inv [OF assms(1)] assms(2) have "job_settled j"
    by (simp add: service_inv_def)
  then show ?thesis by (auto simp: job_settled_def)
qed

theorem job_record_consistent_witness:
  "run_events ''/d'' (boot ''/d'' Map.empty (Inr example_model))
     [Submit ''j1'' example_upload WriteOk, Work example_task example_env_undecodable]
     = Some example_failed
   \<and> jobs (prog example_failed) ''j1'' =
       Some \<lparr>job_id = ''j1'', status = ''failed'', progress = Some 0,
             error = Some ''Format not recognised'', stems = None\<rparr>
   \<and> run_events ''/d'' (boot ''/d'' Map.empty (Inr example_model))
       [Submit ''j1'' example_upload WriteOk, Work example_task example_env]
       = Some example_completed
   \<and> (\<exists>j. jobs (prog example_completed) ''j1'' = Some j \<and> status j = ''completed''
          \<and> stems j \<noteq> None \<and> error j = None)"
proof -
  have r1: "run_events ''/d'' (boot ''/d'' Map.empty (Inr example_model))
      [Submit ''j1'' example_upload WriteOk, Work example_task example_env_undecodable]
      = Some example_failed"
    using example_failed_run by (simp add: example_boot_def)
  have r2: "run_events ''/d'' (boot ''/d'' Map.empty (Inr example_model))
      [Submit ''j1'' example_upload WriteOk, Work example_task example_env]
      = Some example_completed"
    using example_completed_run by (simp add: example_boot_def)
  from job_record_consistent [OF r1 example_failed_job]
       job_record_consistent [OF r2 example_completed_job]
  show ?thesis using r1 r2 example_failed_job example_completed_job by simp
qed

text \<open>
  Claim C9. When a task dispatched by \<open>separate_audio\<close> is waiting, the model was loaded at
  startup and \<open>separator\<close> still holds it, so the worker's first steps cannot end in the
  \<open>RuntimeError\<close> of the check \<open>separator is None\<close>; and no later event changes \<open>separator\<close>.
\<close>

theorem model_check_never_fires:
  assumes run: "run_events DATA_DIR (boot DATA_DIR fs0 loaded) es = Some w"
      and task: "(jid, input_path, output_dir) \<in> set (queue w)"
  shows "(\<exists>m. loaded = Inr m \<and> separator (prog w) = Some m)
       \<and> (\<forall>s'. start_processing jid (prog w) \<noteq> Inl (RuntimeError ''Model not loaded'', s'))
       \<and> (\<forall>es' w'. run_events DATA_DIR w es' = Some w' \<longrightarrow>
             separator (prog w') = separator (prog w))"
proof -
  from reachable_inv [OF run] task have "separator (prog w) \<noteq> None"
    by (auto simp: service_inv_def)
  moreover from run_events_separator [OF run]
  have "separator (prog w) = (case loaded of Inl e \<Rightarrow> None | Inr m \<Rightarrow> Some m)"
    by (simp add: boot_separator)
  ultimately obtain m where m: "loaded = Inr m" "separator (prog w) = Some m"
    by (cases loaded) auto
  have "start_processing jid (prog w) \<noteq> Inl (RuntimeError ''Model not loaded'', s')" for s'
  proof (cases "jobs (prog w) jid")
    case None
    then show ?thesis by (simp add: start_processing_absent)
  next
    case (Some r)
    with m show ?thesis by (simp add: start_processing_present)
  qed
  with m run_events_separator show ?thesis by blast
qed

theorem model_check_never_fires_witness:
  "run_events ''/d'' (boot ''/d'' Map.empty (Inr example_model))
     [Submit ''j1'' example_upload WriteOk] = Some example_submitted
   \<and> (''j1'', ''/d/input/j1_a.wav'', ''/d/output/j1'') \<in> set (queue example_submitted)
   \<and> separator (prog example_submitted) = Some example_model
   \<and> start_processing ''j1'' (prog example_submitted)
       \<noteq> Inl (RuntimeError ''Model not loaded'', prog example_submitted)"
proof -
  have r1: "run_events ''/d'' (boot ''/d'' Map.empty (Inr example_model))
      [Submit ''j1'' example_upload WriteOk] = Some example_submitted"
    using example_submitted_run by (simp add: example_boot_def)
  have q: "(''j1'', ''/d/input/j1_a.wav'', ''/d/output/j1'') \<in> set (queue example_submitted)"
    by (simp add: example_submitted_queue example_task_def)
  from model_check_never_fires [OF r1 q] show ?thesis using r1 q by auto
qed


lemma fire_issued: "fire DATA_DIR w e = Some w' \<Longrightarrow> set (issued w) \<subseteq> set (issued w')"
  by (cases e) (auto split: if_splits sum.splits prod.splits)

lemma fire_jobs_cases:
  assumes inv: "service_inv w" and f: "fire DATA_DIR w e = Some w'"
  shows "jobs (prog w') jid = jobs (prog w) jid
       \<or> (jobs (prog w) jid = None \<and> jid \<notin> set (issued w))
       \<or> (jobs (prog w') jid = None)
       \<or> (\<exists>j j'. jobs (prog w) jid = Some j \<and> jobs (prog w') jid = Some j'
            \<and> status j = ''pending'' \<and> progress j = Some 0
            \<and> (\<exists>p. progress j' = Some p \<and> 0 \<le> p))"
proof (cases e)
  case (Submit jid' upl outcome)
  from f Submit have fresh: "jid' \<notin> set (issued w)" by (simp split: if_splits)
  obtain res s' where sa: "separate_audio DATA_DIR jid' upl outcome (prog w) = (res, s')"
    by (cases "separate_audio DATA_DIR jid' upl outcome (prog w)")
  from f Submit fresh sa have p: "prog w' = s'"
    by (auto split: sum.splits prod.splits)
  from inv fresh have "jobs (prog w) jid' = None" by (auto simp: service_inv_def)
  with separate_audio_effect [OF sa] p fresh show ?thesis
    by (cases "jid = jid'") auto
next
  case (Work t env)
  obtain jid' ip od where t: "t = (jid', ip, od)" by (cases t)
  from f Work have tq: "t \<in> set (queue w)" by (simp split: if_splits)
  from f Work tq t have p: "prog w' = snd (process_separation env jid' ip od (prog w))" by auto
  note eff = process_separation_effect [of env jid' ip od "prog w"]
  show ?thesis
  proof (cases "jobs (prog w) jid'")
    case None
    with eff p show ?thesis by simp
  next
    case (Some r)
    with inv tq t have fresh: "status r = ''pending''" "progress r = Some 0"
      by (auto simp: service_inv_def)
    from eff Some obtain r' where r': "jobs (prog w') = (jobs (prog w))(jid' \<mapsto> r')"
      "progress r' \<in> {Some 0, Some 0.2, Some 0.8, Some 1}"
      using p by auto
    show ?thesis
    proof (cases "jid = jid'")
      case True
      with Some fresh r' show ?thesis by auto
    next
      case False
      with r' show ?thesis by simp
    qed
  qed
next
  case (GetStatus jid')
  with f show ?thesis by simp
next
  case (Download jid' n check)
  with f show ?thesis by simp
next
  case (Delete jid' check outcome)
  with f have p: "prog w' = snd (delete_job DATA_DIR jid' check outcome (prog w))" by auto
  with delete_job_effect [of DATA_DIR jid' check outcome "prog w"] show ?thesis
    by (cases "jid = jid'") auto
qed

lemma run_events_absent_stays:
  "service_inv w \<Longrightarrow> run_events DATA_DIR w es = Some w' \<Longrightarrow> jid \<in> set (issued w)
     \<Longrightarrow> jobs (prog w) jid = None \<Longrightarrow> jobs (prog w') jid = None"
proof (induction es arbitrary: w)
  case Nil
  then show ?case by simp
next
  case (Cons e es)
  from Cons.prems(2) obtain w1 where w1: "fire DATA_DIR w e = Some w1"
      "run_events DATA_DIR w1 es = Some w'"
    by (auto split: option.splits)
  from fire_jobs_cases [OF Cons.prems(1) w1(1), of jid] Cons.prems(3,4)
  have "jobs (prog w1) jid = None" by auto
  moreover from fire_issued [OF w1(1)] Cons.prems(3) have "jid \<in> set (issued w1)" by blast
  ultimately show ?case
    using Cons.IH [OF fire_inv [OF Cons.prems(1) w1(1)] w1(2)] by blast
qed








lemma run_events_completed_frozen:
  "service_inv w \<Longrightarrow> run_events DATA_DIR w es = Some w' \<Longrightarrow> jobs (prog w) jid = Some j
     \<Longrightarrow> status j = ''completed'' \<Longrightarrow> jobs (prog w') jid = Some j' \<Longrightarrow> j' = j"
proof (induction es arbitrary: w)
  case Nil
  then show ?case by simp
next
  case (Cons e es)
  from Cons.prems(2) obtain w1 where w1: "fire DATA_DIR w e = Some w1"
      "run_events DATA_DIR w1 es = Some w'"
    by (auto split: option.splits)
  note inv1 = fire_inv [OF Cons.prems(1) w1(1)]
  from Cons.prems(1,3) have dom: "jid \<in> set (issued w)" by (auto simp: service_inv_def)
  with fire_issued [OF w1(1)] have dom1: "jid \<in> set (issued w1)" by blast
  show ?case
  proof (cases "jobs (prog w1) jid")
    case None
    from run_events_absent_stays [OF inv1 w1(2) dom1 None] Cons.prems(5) show ?thesis by simp
  next
    case (Some j1)
    from fire_jobs_cases [OF Cons.prems(1) w1(1), of jid] Cons.prems(3,4) Some dom
    have "j1 = j" by auto
    with Cons.IH [OF inv1 w1(2) _ Cons.prems(4,5)] Some show ?thesis by simp
  qed
qed

lemma process_separation_try_present:
  assumes "jobs s jid = Some r"
  shows "process_separation_try env jid input_path output_dir s =
    (let r0 = r\<lparr>status := ''processing'', progress := Some 0\<rparr>;
         put = (\<lambda>r' s'. s'\<lparr>jobs := (jobs s)(jid \<mapsto> r')\<rparr>)
     in case separator s of
          None \<Rightarrow> Inl (RuntimeError ''Model not loaded'', put r0 s)
        | Some m \<Rightarrow>
           (case load_audio env m of
              Inl e \<Rightarrow> Inl (e, put r0 s)
            | Inr w \<Rightarrow>
               (case apply_model env w of
                  Inl e \<Rightarrow> Inl (e, put (r0\<lparr>progress := Some 0.2\<rparr>) s)
                | Inr srcs \<Rightarrow>
                   (case write_outputs env input_path output_dir m srcs (files s) of
                      Inl (e, fs) \<Rightarrow> Inl (e, put (r0\<lparr>progress := Some 0.8\<rparr>) (s\<lparr>files := fs\<rparr>))
                    | Inr (st, fs) \<Rightarrow>
                        Inr (s\<lparr>files := fs,
                          jobs := (jobs s)(jid \<mapsto> r0\<lparr>status := ''completed'', progress := Some 1,
                                                     stems := Some st\<rparr>)\<rparr>)))))"
proof (cases "separator s")
  case None
  with assms show ?thesis
    by (simp add: process_separation_try_def start_processing_present)
next
  case (Some m)
  note sep = this
  show ?thesis
  proof (cases "load_audio env m")
    case (Inl e)
    with assms sep show ?thesis
      by (simp add: process_separation_try_def start_processing_present run_model_present)
  next
    case (Inr w)
    note ld = this
    show ?thesis
    proof (cases "apply_model env w")
      case (Inl e)
      with assms sep ld show ?thesis
        by (simp add: process_separation_try_def start_processing_present run_model_present)
    next
      case (Inr srcs)
      note ap = this
      show ?thesis
      proof (cases "write_outputs env input_path output_dir m srcs (files s)")
        case (Inl x)
        then obtain e fs where
          "write_outputs env input_path output_dir m srcs (files s) = Inl (e, fs)"
          by (cases x) simp
        with assms sep ld ap show ?thesis
          by (simp add: process_separation_try_def start_processing_present run_model_present)
      next
        case (Inr y)
        then obtain st fs where
          "write_outputs env input_path output_dir m srcs (files s) = Inr (st, fs)"
          by (cases y) simp
        with assms sep ld ap show ?thesis
          by (simp add: process_separation_try_def start_processing_present run_model_present
              mark_completed_present)
      qed
    qed
  qed
qed

lemma process_separation_via_try:
  assumes "jobs s jid = Some r"
  shows "process_separation env jid input_path output_dir s =
     (case process_separation_try env jid input_path output_dir s of
        Inr s' \<Rightarrow> (None, s')
      | Inl (e, s1) \<Rightarrow>
          (None, s1\<lparr>jobs := (jobs s1)(jid \<mapsto>
                   (the (jobs s1 jid))\<lparr>status := ''failed'', error := Some (str_exn e)\<rparr>)\<rparr>))"
  unfolding process_separation_def process_separation_try_present [OF assms]
  by (simp add: Let_def mark_failed_present split: option.splits sum.splits prod.splits)

text \<open>
  Claim C1. For a job that is in the dictionary when its worker starts, no exception leaves
  the worker, whatever the external calls do; the records of all other jobs are as before;
  and every exception raised in the body of the \<open>try\<close>, in particular by loading and
  normalising the audio, by the model, or by writing the outputs, ends with the job's status
  \<open>failed\<close> and the exception's message in its error field.
\<close>

theorem worker_failure_boundary:
  assumes job: "jobs s jid = Some r"
  shows "fst (process_separation env jid input_path output_dir s) = None
       \<and> (\<forall>k. k \<noteq> jid \<longrightarrow>
             jobs (snd (process_separation env jid input_path output_dir s)) k = jobs s k)
       \<and> (\<forall>e s1. process_separation_try env jid input_path output_dir s = Inl (e, s1) \<longrightarrow>
             (\<exists>j. jobs (snd (process_separation env jid input_path output_dir s)) jid = Some j
                  \<and> status j = ''failed'' \<and> error j = Some (str_exn e)))
       \<and> (\<forall>m e. separator s = Some m \<and>
               (load_audio env m = Inl e
                \<or> (\<exists>w. load_audio env m = Inr w \<and>
                      (apply_model env w = Inl e
                       \<or> (\<exists>srcs fs. apply_model env w = Inr srcs \<and>
                             write_outputs env input_path output_dir m srcs (files s)
                               = Inl (e, fs))))) \<longrightarrow>
             (\<exists>j. jobs (snd (process_separation env jid input_path output_dir s)) jid = Some j
                  \<and> status j = ''failed'' \<and> error j = Some (str_exn e)))"
proof -
  let ?res = "process_separation env jid input_path output_dir s"
  have a: "fst ?res = None"
    by (simp add: process_separation_present [OF job])
  have b: "jobs (snd ?res) k = jobs s k" if "k \<noteq> jid" for k
    using that unfolding process_separation_present [OF job]
    by (simp add: Let_def split: option.splits sum.splits prod.splits)
  have c: "\<exists>j. jobs (snd ?res) jid = Some j \<and> status j = ''failed'' \<and> error j = Some (str_exn e)"
    if "process_separation_try env jid input_path output_dir s = Inl (e, s1)" for e s1
    using that unfolding process_separation_via_try [OF job] by simp
  have d: "\<exists>j. jobs (snd ?res) jid = Some j \<and> status j = ''failed'' \<and> error j = Some (str_exn e)"
    if "separator s = Some m \<and>
               (load_audio env m = Inl e
                \<or> (\<exists>w. load_audio env m = Inr w \<and>
                      (apply_model env w = Inl e
                       \<or> (\<exists>srcs fs. apply_model env w = Inr srcs \<and>
                             write_outputs env input_path output_dir m srcs (files s)
                               = Inl (e, fs)))))" for m e
    using that unfolding process_separation_present [OF job]
    by (auto simp: Let_def)
  from a b c d show ?thesis by blast
qed


lemma example_submitted_separator: "separator (prog example_submitted) = Some example_model"
  by (simp add: example_submitted_def example_defs service_defs)

lemma example_undecodable_load:
  "load_audio example_env_undecodable example_model = Inl (Raised ''Format not recognised'')"
  by (simp add: load_audio_def example_defs)

theorem worker_failure_boundary_witness:
  "jobs (prog example_submitted) ''j1'' =
     Some \<lparr>job_id = ''j1'', status = ''pending'', progress = Some 0, error = None, stems = None\<rparr>
   \<and> fst (process_separation example_env_undecodable ''j1'' ''/d/input/j1_a.wav''
            ''/d/output/j1'' (prog example_submitted)) = None
   \<and> (\<exists>j. jobs (snd (process_separation example_env_undecodable ''j1'' ''/d/input/j1_a.wav''
                        ''/d/output/j1'' (prog example_submitted))) ''j1'' = Some j
          \<and> status j = ''failed'' \<and> error j = Some ''Format not recognised'')"
  using worker_failure_boundary [OF example_submitted_job, of example_env_undecodable
      "''/d/input/j1_a.wav''" "''/d/output/j1''"]
    example_submitted_job example_submitted_separator example_undecodable_load
  by auto

text \<open>
  Claim C4. \<open>separate_audio\<close> with no model loaded raises the 503 \<open>HTTPException\<close> and
  leaves the whole state, files included, as it was. With the model loaded, a failure to read
  the upload or to write it raises the 500 \<open>HTTPException\<close> with the dictionary of jobs
  unchanged. In either case the handler returns no job id and dispatches no task.
\<close>

theorem submit_errors_register_nothing:
  "(separator s = None \<longrightarrow>
      separate_audio DATA_DIR jid upl outcome s = (Inl (HTTPException 503 ''Model not loaded''), s))
   \<and> (\<forall>e. separator s \<noteq> None
          \<and> (read_result upl = Inl e
              \<or> (\<exists>c fs. read_result upl = Inr c
                   \<and> write_file outcome
                        (path_join (path_join DATA_DIR ''input'') (jid @ ''_'' @ filename upl))
                        (Uploaded c) (files s) = Inl (e, fs))) \<longrightarrow>
        (\<exists>s'. separate_audio DATA_DIR jid upl outcome s
                = (Inl (HTTPException 500 (''Failed to save file: '' @ str_exn e)), s')
             \<and> jobs s' = jobs s \<and> separator s' = separator s))
   \<and> (\<forall>f s'. separate_audio DATA_DIR jid upl outcome s = (Inl f, s') \<longrightarrow> jobs s' = jobs s)
   \<and> (\<forall>w w' f s'. prog w = s \<and> separate_audio DATA_DIR jid upl outcome s = (Inl f, s')
          \<and> fire DATA_DIR w (Submit jid upl outcome) = Some w' \<longrightarrow>
        queue w' = queue w \<and> jobs (prog w') = jobs s)"
proof -
  have a: "separator s = None \<longrightarrow>
      separate_audio DATA_DIR jid upl outcome s = (Inl (HTTPException 503 ''Model not loaded''), s)"
    by (simp add: separate_audio_def)
  have b: "\<exists>s'. separate_audio DATA_DIR jid upl outcome s
                = (Inl (HTTPException 500 (''Failed to save file: '' @ str_exn e)), s')
             \<and> jobs s' = jobs s \<and> separator s' = separator s"
    if "separator s \<noteq> None
          \<and> (read_result upl = Inl e
              \<or> (\<exists>c fs. read_result upl = Inr c
                   \<and> write_file outcome
                        (path_join (path_join DATA_DIR ''input'') (jid @ ''_'' @ filename upl))
                        (Uploaded c) (files s) = Inl (e, fs)))" for e
    using that by (auto simp: separate_audio_def Let_def)
  have c: "jobs s' = jobs s" if "separate_audio DATA_DIR jid upl outcome s = (Inl f, s')" for f s'
    using separate_audio_effect [OF that] by auto
  have d: "queue w' = queue w \<and> jobs (prog w') = jobs s"
    if "prog w = s \<and> separate_audio DATA_DIR jid upl outcome s = (Inl f, s')
          \<and> fire DATA_DIR w (Submit jid upl outcome) = Some w'" for w w' f s'
    using that c by (auto split: if_splits)
  from a b c d show ?thesis by blast
qed

theorem submit_errors_register_nothing_witness:
  "separate_audio ''/d'' ''j2'' example_upload WriteOk (prog (boot ''/d'' Map.empty (Inl (Raised ''no weights''))))
     = (Inl (HTTPException 503 ''Model not loaded''), prog (boot ''/d'' Map.empty (Inl (Raised ''no weights''))))
   \<and> fst (separate_audio ''/d'' ''j2'' example_upload (WriteFailed (Raised ''No space left on device'') True)
            (prog example_submitted))
     = Inl (HTTPException 500 ''Failed to save file: No space left on device'')
   \<and> jobs (snd (separate_audio ''/d'' ''j2'' example_upload
                   (WriteFailed (Raised ''No space left on device'') True) (prog example_submitted)))
     = jobs (prog example_submitted)"
proof -
  let ?s0 = "prog (boot ''/d'' Map.empty (Inl (Raised ''no weights'')))"
  let ?out = "WriteFailed (Raised ''No space left on device'') True"
  have n: "separator ?s0 = None" by (simp add: service_defs)
  have h: "separator (prog example_submitted) \<noteq> None
     \<and> (read_result example_upload = Inl (Raised ''No space left on device'')
        \<or> (\<exists>c fs. read_result example_upload = Inr c
             \<and> write_file ?out (path_join (path_join ''/d'' ''input'') (''j2'' @ ''_'' @ filename example_upload))
                  (Uploaded c) (files (prog example_submitted)) = Inl (Raised ''No space left on device'', fs)))"
    by (simp add: example_submitted_separator example_upload_def write_file_def)
  from submit_errors_register_nothing [of ?s0 "''/d''" "''j2''" example_upload WriteOk] n
  have 1: "separate_audio ''/d'' ''j2'' example_upload WriteOk ?s0
     = (Inl (HTTPException 503 ''Model not loaded''), ?s0)" by blast
  from submit_errors_register_nothing [of "prog example_submitted" "''/d''" "''j2''" example_upload ?out] h
  obtain s' where "separate_audio ''/d'' ''j2'' example_upload ?out (prog example_submitted)
     = (Inl (HTTPException 500 (''Failed to save file: '' @ str_exn (Raised ''No space left on device''))), s')"
     "jobs s' = jobs (prog example_submitted)" by blast
  with 1 show ?thesis by simp
qed

lemma example_completed_output_dir: "files (prog example_completed) ''/d/output/j1'' = Some Dir"
  by (simp add: example_completed_def example_defs service_defs)

text \<open>
  Claim C5 says that a failure to remove the output directory is not an error. In the code
  \<open>shutil.rmtree\<close> is called without a handler: when it raises, the exception leaves
  \<open>delete_job\<close> before \<open>del jobs[job_id]\<close>, and the job is still there afterwards.
\<close>

theorem delete_job_rmtree_failure_counterexample:
  "run_events ''/d'' example_boot
     [Submit ''j1'' example_upload WriteOk, Work example_task example_env] = Some example_completed
   \<and> fst (delete_job ''/d'' ''j1'' None (RmtreeFailed (Raised ''Permission denied'') [])
            (prog example_completed))
       = Inl (Unhandled (Raised ''Permission denied''))
   \<and> get_job_status ''j1''
        (snd (delete_job ''/d'' ''j1'' None (RmtreeFailed (Raised ''Permission denied'') [])
                (prog example_completed)))
       \<noteq> Inl (HTTPException 404 ''Job not found'')"
  using example_completed_run example_completed_job example_completed_output_dir
  by (simp add: delete_job_def get_job_status_def exists_def rmtree_def path_join_def Let_def)

text \<open>
  Claim C5, amended. \<open>delete_job\<close> raises the 404 \<open>HTTPException\<close> for an unknown id. For
  a known id, if the check \<open>output_dir.exists()\<close> itself raises, the exception leaves the
  handler and nothing has changed. If the check finds no output directory, that is not an
  error: the entry is removed. If it finds the directory and \<open>rmtree\<close> succeeds, the
  directory and everything below it are gone and the entry is removed. If \<open>rmtree\<close> raises,
  the exception leaves the handler and the entry stays. After a delete that succeeded,
  \<open>get_job_status\<close> and a second \<open>delete_job\<close> on the same id both raise the 404
  \<open>HTTPException\<close>.
\<close>

theorem delete_job_removes_entry_unless_rmtree_fails:
  "(jobs s jid = None \<longrightarrow>
      delete_job DATA_DIR jid check outcome s = (Inl (HTTPException 404 ''Job not found''), s))
   \<and> (\<forall>e. jobs s jid \<noteq> None
          \<and> exists check (files s) (path_join (path_join DATA_DIR ''output'') jid) = Inl e \<longrightarrow>
        delete_job DATA_DIR jid check outcome s = (Inl (Unhandled e), s))
   \<and> (jobs s jid \<noteq> None
        \<and> exists check (files s) (path_join (path_join DATA_DIR ''output'') jid) = Inr False \<longrightarrow>
        delete_job DATA_DIR jid check outcome s
          = (Inr (Json [(''status'', ''deleted''), (''job_id'', jid)]),
             s\<lparr>jobs := (jobs s)(jid := None)\<rparr>))
   \<and> (\<forall>fs. jobs s jid \<noteq> None
          \<and> exists check (files s) (path_join (path_join DATA_DIR ''output'') jid) = Inr True
          \<and> rmtree outcome (path_join (path_join DATA_DIR ''output'') jid) (files s) = Inr fs \<longrightarrow>
        delete_job DATA_DIR jid check outcome s
          = (Inr (Json [(''status'', ''deleted''), (''job_id'', jid)]),
             s\<lparr>files := fs, jobs := (jobs s)(jid := None)\<rparr>)
        \<and> (\<forall>p. p = path_join (path_join DATA_DIR ''output'') jid
                 \<or> below (path_join (path_join DATA_DIR ''output'') jid) p \<longrightarrow> fs p = None))
   \<and> (\<forall>e fs. jobs s jid \<noteq> None
          \<and> exists check (files s) (path_join (path_join DATA_DIR ''output'') jid) = Inr True
          \<and> rmtree outcome (path_join (path_join DATA_DIR ''output'') jid) (files s) = Inl (e, fs) \<longrightarrow>
        delete_job DATA_DIR jid check outcome s = (Inl (Unhandled e), s\<lparr>files := fs\<rparr>))
   \<and> (\<forall>r s'. delete_job DATA_DIR jid check outcome s = (Inr r, s') \<longrightarrow>
        get_job_status jid s' = Inl (HTTPException 404 ''Job not found'')
        \<and> (\<forall>check' outcome'. delete_job DATA_DIR jid check' outcome' s'
               = (Inl (HTTPException 404 ''Job not found''), s')))"
proof -
  let ?od = "path_join (path_join DATA_DIR ''output'') jid"
  have a: "jobs s jid = None \<longrightarrow>
      delete_job DATA_DIR jid check outcome s = (Inl (HTTPException 404 ''Job not found''), s)"
    by (simp add: delete_job_def)
  have x: "delete_job DATA_DIR jid check outcome s = (Inl (Unhandled e), s)"
    if "jobs s jid \<noteq> None \<and> exists check (files s) ?od = Inl e" for e
    using that by (simp add: delete_job_def Let_def)
  have b: "jobs s jid \<noteq> None \<and> exists check (files s) ?od = Inr False \<longrightarrow>
        delete_job DATA_DIR jid check outcome s
          = (Inr (Json [(''status'', ''deleted''), (''job_id'', jid)]),
             s\<lparr>jobs := (jobs s)(jid := None)\<rparr>)"
    by (simp add: delete_job_def Let_def)
  have c: "delete_job DATA_DIR jid check outcome s
          = (Inr (Json [(''status'', ''deleted''), (''job_id'', jid)]),
             s\<lparr>files := fs, jobs := (jobs s)(jid := None)\<rparr>)
        \<and> (\<forall>p. p = ?od \<or> below ?od p \<longrightarrow> fs p = None)"
    if "jobs s jid \<noteq> None \<and> exists check (files s) ?od = Inr True
        \<and> rmtree outcome ?od (files s) = Inr fs" for fs
    using that
    by (auto simp: delete_job_def Let_def rmtree_def
        split: rmtree_outcome.splits option.splits node.splits)
  have d: "delete_job DATA_DIR jid check outcome s = (Inl (Unhandled e), s\<lparr>files := fs\<rparr>)"
    if "jobs s jid \<noteq> None \<and> exists check (files s) ?od = Inr True
        \<and> rmtree outcome ?od (files s) = Inl (e, fs)"
    for e fs
    using that by (simp add: delete_job_def Let_def)
  have e: "get_job_status jid s' = Inl (HTTPException 404 ''Job not found'')
        \<and> (\<forall>check' outcome'. delete_job DATA_DIR jid check' outcome' s'
               = (Inl (HTTPException 404 ''Job not found''), s'))"
    if "delete_job DATA_DIR jid check outcome s = (Inr r, s')" for r s'
  proof -
    from that have "jobs s' jid = None"
      by (auto simp: delete_job_def Let_def split: if_splits sum.splits prod.splits)
    then show ?thesis by (simp add: get_job_status_def delete_job_def)
  qed
  from a x b c d e show ?thesis by blast
qed

theorem delete_job_removes_entry_unless_rmtree_fails_witness:
  "jobs (prog example_completed) ''j1'' \<noteq> None
   \<and> exists None (files (prog example_completed)) ''/d/output/j1'' = Inr True
   \<and> fst (delete_job ''/d'' ''j1'' None RmtreeOk (prog example_completed))
       = Inr (Json [(''status'', ''deleted''), (''job_id'', ''j1'')])
   \<and> get_job_status ''j1'' (snd (delete_job ''/d'' ''j1'' None RmtreeOk (prog example_completed)))
       = Inl (HTTPException 404 ''Job not found'')
   \<and> fst (delete_job ''/d'' ''j1'' None RmtreeOk
            (snd (delete_job ''/d'' ''j1'' None RmtreeOk (prog example_completed))))
       = Inl (HTTPException 404 ''Job not found'')
   \<and> files (snd (delete_job ''/d'' ''j1'' None RmtreeOk (prog example_completed)))
        ''/d/output/j1/vocals.wav'' = None
   \<and> delete_job ''/d'' ''j1'' (Some (Raised ''Permission denied'')) RmtreeOk
        (prog example_completed)
       = (Inl (Unhandled (Raised ''Permission denied'')), prog example_completed)"
proof -
  let ?s = "prog example_completed"
  let ?fs = "\<lambda>p. if p = ''/d/output/j1'' \<or> below ''/d/output/j1'' p then None else files ?s p"
  let ?denied = "Some (Raised ''Permission denied'')"
  have j: "jobs ?s ''j1'' \<noteq> None" by (simp add: example_completed_job)
  have od: "path_join (path_join ''/d'' ''output'') ''j1'' = ''/d/output/j1''"
    by (simp add: path_join_def)
  have x: "exists None (files ?s) ''/d/output/j1'' = Inr True"
    by (simp add: exists_def example_completed_output_dir)
  have y: "exists ?denied (files ?s) ''/d/output/j1'' = Inl (Raised ''Permission denied'')"
    by (simp add: exists_def)
  have rm: "rmtree RmtreeOk ''/d/output/j1'' (files ?s) = Inr ?fs"
    by (simp add: rmtree_def example_completed_output_dir)
  have bl: "below ''/d/output/j1'' ''/d/output/j1/vocals.wav''"
    by (simp add: below_def)
  from delete_job_removes_entry_unless_rmtree_fails [of ?s "''j1''" "''/d''" None RmtreeOk]
    j x rm od
  have del: "delete_job ''/d'' ''j1'' None RmtreeOk ?s
      = (Inr (Json [(''status'', ''deleted''), (''job_id'', ''j1'')]),
         ?s\<lparr>files := ?fs, jobs := (jobs ?s)(''j1'' := None)\<rparr>)"
    by simp
  from delete_job_removes_entry_unless_rmtree_fails [of ?s "''j1''" "''/d''" None RmtreeOk] del
  have after: "get_job_status ''j1'' (?s\<lparr>files := ?fs, jobs := (jobs ?s)(''j1'' := None)\<rparr>)
       = Inl (HTTPException 404 ''Job not found'')
     \<and> (\<forall>check' outcome'. delete_job ''/d'' ''j1'' check' outcome'
            (?s\<lparr>files := ?fs, jobs := (jobs ?s)(''j1'' := None)\<rparr>)
           = (Inl (HTTPException 404 ''Job not found''),
              ?s\<lparr>files := ?fs, jobs := (jobs ?s)(''j1'' := None)\<rparr>))"
    by blast
  from delete_job_removes_entry_unless_rmtree_fails [of ?s "''j1''" "''/d''" ?denied RmtreeOk]
    j y od
  have denied: "delete_job ''/d'' ''j1'' ?denied RmtreeOk ?s
       = (Inl (Unhandled (Raised ''Permission denied'')), ?s)"
    by simp
  from j x del after bl denied show ?thesis by simp
qed

lemma example_drifted_job:
  "jobs example_drifted ''j1'' =
     Some \<lparr>job_id = ''j1'', status = ''completed'', progress = Some 1, error = None,
           stems = Some [(''vocals'', ''/d/output/j1/vocals.wav''),
                         (''drums'', ''/d/output/j1/drums.wav'')]\<rparr>"
  by (simp add: example_drifted_def example_completed_job)

lemma example_drifted_vocals: "files example_drifted ''/d/output/j1/vocals.wav'' = None"
  by (simp add: example_drifted_def)

lemma example_completed_vocals:
  "files (prog example_completed) ''/d/output/j1/vocals.wav''
     = Some (File (Wav [[0.5, 0.25], [0.5, 0.25]] 44100))"
  by (simp add: example_completed_def example_defs service_defs)

text \<open>
  Claim C6 says that a recorded file that is missing from storage gives NotFound, and that a
  successful lookup returns the file. \<open>stem_path.exists()\<close> is called without a handler: when
  its \<open>stat\<close> call is refused, for a file that is missing as for one that is there, the
  exception leaves \<open>download_stem\<close>, which is neither NotFound nor a file.
\<close>

theorem download_stem_check_raises_counterexample:
  "status (the (jobs example_drifted ''j1'')) = ''completed''
   \<and> map_of (the (stems (the (jobs example_drifted ''j1'')))) ''vocals''
       = Some ''/d/output/j1/vocals.wav''
   \<and> files example_drifted ''/d/output/j1/vocals.wav'' = None
   \<and> download_stem ''j1'' ''vocals'' (Some (Raised ''Permission denied'')) example_drifted
       = Inl (Unhandled (Raised ''Permission denied''))
   \<and> download_stem ''j1'' ''vocals'' (Some (Raised ''Permission denied'')) example_drifted
       \<noteq> Inl (HTTPException 404 ''Stem file not found'')"
  by (simp add: example_drifted_job example_drifted_vocals download_stem_def exists_def)

text \<open>
  Claim C6, amended. \<open>download_stem\<close> raises the 404 \<open>HTTPException\<close> for an unknown job; the
  400 one whenever the job's status is not \<open>completed\<close>; a 404 one when the stem name is not a
  key of the completed job's stems. For a recorded path, if the check \<open>stem_path.exists()\<close>
  itself raises, the exception leaves the handler; if the check finds no file the handler
  raises a 404 \<open>HTTPException\<close>; if it finds the file the handler returns a \<open>FileResponse\<close>
  for the recorded path with media type \<open>audio/wav\<close>. A response is only ever returned for a
  completed job.
\<close>

theorem download_stem_outcomes:
  "(jobs s jid = None \<longrightarrow>
      download_stem jid stem_name check s = Inl (HTTPException 404 ''Job not found''))
   \<and> (\<forall>j. jobs s jid = Some j \<and> status j \<noteq> ''completed'' \<longrightarrow>
         download_stem jid stem_name check s
           = Inl (HTTPException 400 (''Job not completed: '' @ status j)))
   \<and> (\<forall>j. jobs s jid = Some j \<and> status j = ''completed''
          \<and> (stems j = None \<or> map_of (the (stems j)) stem_name = None) \<longrightarrow>
         download_stem jid stem_name check s
           = Inl (HTTPException 404
                    (''Stem '' @ [CHR 0x27] @ stem_name @ [CHR 0x27] @ '' not found'')))
   \<and> (\<forall>j st p e. jobs s jid = Some j \<and> status j = ''completed'' \<and> stems j = Some st
          \<and> map_of st stem_name = Some p \<and> exists check (files s) p = Inl e \<longrightarrow>
         download_stem jid stem_name check s = Inl (Unhandled e))
   \<and> (\<forall>j st p. jobs s jid = Some j \<and> status j = ''completed'' \<and> stems j = Some st
          \<and> map_of st stem_name = Some p \<and> exists check (files s) p = Inr False \<longrightarrow>
         download_stem jid stem_name check s = Inl (HTTPException 404 ''Stem file not found''))
   \<and> (\<forall>j st p. jobs s jid = Some j \<and> status j = ''completed'' \<and> stems j = Some st
          \<and> map_of st stem_name = Some p \<and> exists check (files s) p = Inr True \<longrightarrow>
         download_stem jid stem_name check s
           = Inr (FileResponse p ''audio/wav'' (stem_name @ ''.wav'')))
   \<and> (\<forall>r. download_stem jid stem_name check s = Inr r \<longrightarrow>
         (\<exists>j. jobs s jid = Some j \<and> status j = ''completed''))"
proof -
  have a: "jobs s jid = None \<longrightarrow>
      download_stem jid stem_name check s = Inl (HTTPException 404 ''Job not found'')"
    by (simp add: download_stem_def)
  have b: "download_stem jid stem_name check s
           = Inl (HTTPException 400 (''Job not completed: '' @ status j))"
    if "jobs s jid = Some j \<and> status j \<noteq> ''completed''" for j
    using that by (simp add: download_stem_def)
  have c: "download_stem jid stem_name check s
           = Inl (HTTPException 404
                    (''Stem '' @ [CHR 0x27] @ stem_name @ [CHR 0x27] @ '' not found''))"
    if "jobs s jid = Some j \<and> status j = ''completed''
          \<and> (stems j = None \<or> map_of (the (stems j)) stem_name = None)" for j
    using that by (auto simp: download_stem_def)
  have x: "download_stem jid stem_name check s = Inl (Unhandled e)"
    if "jobs s jid = Some j \<and> status j = ''completed'' \<and> stems j = Some st
          \<and> map_of st stem_name = Some p \<and> exists check (files s) p = Inl e" for j st p e
    using that by (auto simp: download_stem_def Let_def)
  have d: "download_stem jid stem_name check s = Inl (HTTPException 404 ''Stem file not found'')"
    if "jobs s jid = Some j \<and> status j = ''completed'' \<and> stems j = Some st
          \<and> map_of st stem_name = Some p \<and> exists check (files s) p = Inr False" for j st p
    using that by (auto simp: download_stem_def Let_def)
  have e: "download_stem jid stem_name check s
           = Inr (FileResponse p ''audio/wav'' (stem_name @ ''.wav''))"
    if "jobs s jid = Some j \<and> status j = ''completed'' \<and> stems j = Some st
          \<and> map_of st stem_name = Some p \<and> exists check (files s) p = Inr True" for j st p
    using that by (auto simp: download_stem_def Let_def)
  have f: "\<exists>j. jobs s jid = Some j \<and> status j = ''completed''"
    if "download_stem jid stem_name check s = Inr r" for r
    using that by (auto simp: download_stem_def split: option.splits if_splits)
  from a b c x d e f show ?thesis by blast
qed

theorem download_stem_outcomes_witness:
  "download_stem ''j0'' ''vocals'' None (prog example_completed)
     = Inl (HTTPException 404 ''Job not found'')
   \<and> download_stem ''j1'' ''vocals'' None (prog example_submitted)
     = Inl (HTTPException 400 ''Job not completed: pending'')
   \<and> download_stem ''j1'' ''piano'' None (prog example_completed)
     = Inl (HTTPException 404 (''Stem '' @ [CHR 0x27] @ ''piano'' @ [CHR 0x27] @ '' not found''))
   \<and> download_stem ''j1'' ''vocals'' (Some (Raised ''Permission denied'')) (prog example_completed)
     = Inl (Unhandled (Raised ''Permission denied''))
   \<and> download_stem ''j1'' ''vocals'' None example_drifted
     = Inl (HTTPException 404 ''Stem file not found'')
   \<and> download_stem ''j1'' ''vocals'' None (prog example_completed)
     = Inr (FileResponse ''/d/output/j1/vocals.wav'' ''audio/wav'' ''vocals.wav'')"
proof -
  have none: "jobs (prog example_completed) ''j0'' = None"
    by (simp add: example_completed_def example_defs service_defs)
  from download_stem_outcomes [of "prog example_completed" "''j0''" "''vocals''" None] none
  have 1: "download_stem ''j0'' ''vocals'' None (prog example_completed)
     = Inl (HTTPException 404 ''Job not found'')" by blast
  from download_stem_outcomes [of "prog example_submitted" "''j1''" "''vocals''" None]
    example_submitted_job
  have 2: "download_stem ''j1'' ''vocals'' None (prog example_submitted)
     = Inl (HTTPException 400 ''Job not completed: pending'')" by simp
  from download_stem_outcomes [of "prog example_completed" "''j1''" "''piano''" None]
    example_completed_job
  have 3: "download_stem ''j1'' ''piano'' None (prog example_completed)
     = Inl (HTTPException 404 (''Stem '' @ [CHR 0x27] @ ''piano'' @ [CHR 0x27] @ '' not found''))"
    by simp
  from download_stem_outcomes [of "prog example_completed" "''j1''" "''vocals''"
      "Some (Raised ''Permission denied'')"] example_completed_job
  have 4: "download_stem ''j1'' ''vocals'' (Some (Raised ''Permission denied''))
      (prog example_completed) = Inl (Unhandled (Raised ''Permission denied''))"
    by (simp add: exists_def)
  from download_stem_outcomes [of example_drifted "''j1''" "''vocals''" None]
    example_drifted_job example_drifted_vocals
  have 5: "download_stem ''j1'' ''vocals'' None example_drifted
     = Inl (HTTPException 404 ''Stem file not found'')"
    by (simp add: exists_def)
  from download_stem_outcomes [of "prog example_completed" "''j1''" "''vocals''" None]
    example_completed_job example_completed_vocals
  have 6: "download_stem ''j1'' ''vocals'' None (prog example_completed)
     = Inr (FileResponse ''/d/output/j1/vocals.wav'' ''audio/wav'' ''vocals.wav'')"
    by (simp add: exists_def)
  from 1 2 3 4 5 6 show ?thesis by blast
qed

text \<open>
  Claim C10. Take a job that is completed at some point of a run, and a later point at which
  \<open>download_stem\<close> answers with a file. The path served is the one that the job's stems
  held under that stem name when the job was seen completed: the name is looked up, never made
  into a path, and the record of a completed job does not change afterwards.
\<close>

theorem download_serves_recorded_path:
  assumes run1: "run_events DATA_DIR (boot DATA_DIR fs0 loaded) es1 = Some w1"
      and fin: "jobs (prog w1) jid = Some j1" "status j1 = ''completed''"
      and run2: "run_events DATA_DIR w1 es2 = Some w2"
      and served: "download_stem jid stem_name check (prog w2) = Inr r"
  shows "\<exists>st p. stems j1 = Some st \<and> map_of st stem_name = Some p
           \<and> r = FileResponse p ''audio/wav'' (stem_name @ ''.wav'')
           \<and> (stem_name, p) \<in> set st \<and> exists check (files (prog w2)) p = Inr True"
proof -
  from served obtain j2 where j2: "jobs (prog w2) jid = Some j2"
    by (auto simp: download_stem_def split: option.splits)
  from run_events_completed_frozen [OF reachable_inv [OF run1] run2 fin j2]
  have same: "j2 = j1" .
  from served j2 same obtain st p where sp: "stems j1 = Some st" "map_of st stem_name = Some p"
      "r = FileResponse p ''audio/wav'' (stem_name @ ''.wav'')"
      "exists check (files (prog w2)) p = Inr True"
    by (auto simp: download_stem_def Let_def split: if_splits sum.splits)
  from sp(2) have "(stem_name, p) \<in> set st" by (rule map_of_SomeD)
  with sp show ?thesis by blast
qed

theorem download_serves_recorded_path_witness:
  "run_events ''/d'' (boot ''/d'' Map.empty (Inr example_model))
     [Submit ''j1'' example_upload WriteOk, Work example_task example_env] = Some example_completed
   \<and> status (the (jobs (prog example_completed) ''j1'')) = ''completed''
   \<and> run_events ''/d'' example_completed [GetStatus ''j1''] = Some example_completed
   \<and> download_stem ''j1'' ''drums'' None (prog example_completed)
       = Inr (FileResponse ''/d/output/j1/drums.wav'' ''audio/wav'' ''drums.wav'')
   \<and> map_of (the (stems (the (jobs (prog example_completed) ''j1'')))) ''drums''
       = Some ''/d/output/j1/drums.wav''"
proof -
  let ?j = "\<lparr>job_id = ''j1'', status = ''completed'', progress = Some 1, error = None,
           stems = Some [(''vocals'', ''/d/output/j1/vocals.wav''),
                         (''drums'', ''/d/output/j1/drums.wav'')]\<rparr>"
  have r1: "run_events ''/d'' (boot ''/d'' Map.empty (Inr example_model))
      [Submit ''j1'' example_upload WriteOk, Work example_task example_env] = Some example_completed"
    using example_completed_run by (simp add: example_boot_def)
  have st: "status ?j = ''completed''" by simp
  have r2: "run_events ''/d'' example_completed [GetStatus ''j1''] = Some example_completed"
    by simp
  have drums: "files (prog example_completed) ''/d/output/j1/drums.wav'' \<noteq> None"
    by (simp add: example_completed_def example_defs service_defs)
  have dl: "download_stem ''j1'' ''drums'' None (prog example_completed)
       = Inr (FileResponse ''/d/output/j1/drums.wav'' ''audio/wav'' ''drums.wav'')"
    using example_completed_job drums by (auto simp: download_stem_def exists_def Let_def)
  from download_serves_recorded_path [OF r1 example_completed_job st r2 dl]
  show ?thesis using r1 r2 dl example_completed_job by simp
qed

lemma write_file_keeps:
  "write_file outcome p c fs = Inl (e, fs') \<or> write_file outcome p c fs = Inr fs'
     \<Longrightarrow> fs q \<noteq> None \<Longrightarrow> fs' q \<noteq> None"
  by (auto simp: write_file_def split: write_outcome.splits option.splits node.splits if_splits)

lemma mkdir_keeps: "mkdir err p fs = Inr fs' \<Longrightarrow> fs q \<noteq> None \<Longrightarrow> fs' q \<noteq> None"
  by (auto simp: mkdir_def split: option.splits node.splits if_splits)

lemma save_stems_keeps:
  "save_stems env od rate srcs names acc fs = Inl (e, fs')
     \<or> save_stems env od rate srcs names acc fs = Inr (st, fs')
     \<Longrightarrow> fs q \<noteq> None \<Longrightarrow> fs' q \<noteq> None"
proof (induction names arbitrary: acc fs)
  case Nil
  then show ?case by auto
next
  case (Cons a names)
  obtain i stem_name where a: "a = (i, stem_name)" by (cases a)
  let ?p = "path_join od (stem_name @ ''.wav'')"
  show ?case
  proof (cases "length srcs \<le> i")
    case True
    with Cons.prems a show ?thesis by (auto simp: Let_def)
  next
    case False
    show ?thesis
    proof (cases "write_file (torchaudio_save env i) ?p (Wav (srcs ! i) rate) fs")
      case (Inl x)
      obtain e1 fs1 where x: "x = (e1, fs1)" by (cases x)
      from Cons.prems(1) a False Inl x have "fs' = fs1" by (auto simp: Let_def)
      with write_file_keeps [of "torchaudio_save env i" ?p "Wav (srcs ! i) rate" fs e1 fs1 q]
        Inl x Cons.prems(2) show ?thesis by simp
    next
      case (Inr fs1)
      with write_file_keeps [of "torchaudio_save env i" ?p "Wav (srcs ! i) rate" fs _ fs1 q]
        Cons.prems(2) have k: "fs1 q \<noteq> None" by simp
      from Cons.prems(1) a False Inr
      have "save_stems env od rate srcs names (AList.update stem_name ?p acc) fs1 = Inl (e, fs')
          \<or> save_stems env od rate srcs names (AList.update stem_name ?p acc) fs1 = Inr (st, fs')"
        by (auto simp: Let_def)
      from Cons.IH [OF this k] show ?thesis .
    qed
  qed
qed

lemma write_outputs_failure_keeps:
  assumes "write_outputs env ip od m srcs fs = Inl (e, fs')" and "fs q \<noteq> None"
  shows "fs' q \<noteq> None"
proof (cases "mkdir (mkdir_error env) od fs")
  case (Inl x)
  with assms show ?thesis by (simp add: write_outputs_def)
next
  case (Inr fs1)
  note mk = this
  from mkdir_keeps [OF mk assms(2)] have k1: "fs1 q \<noteq> None" .
  show ?thesis
  proof (cases "save_stems env od (samplerate m) srcs (enumerate 0 (sources m)) [] fs1")
    case (Inl x)
    obtain e1 fs2 where x: "x = (e1, fs2)" by (cases x)
    with assms(1) mk Inl have "fs' = fs2" by (simp add: write_outputs_def)
    with save_stems_keeps [of env od "samplerate m" srcs "enumerate 0 (sources m)" "[]" fs1 e1 fs2 _ q]
      Inl x k1 show ?thesis by simp
  next
    case (Inr y)
    obtain st fs2 where y: "y = (st, fs2)" by (cases y)
    from save_stems_keeps [of env od "samplerate m" srcs "enumerate 0 (sources m)" "[]" fs1 _ fs2 st q]
      Inr y k1 have k2: "fs2 q \<noteq> None" by simp
    from assms(1) mk Inr y have "fs' = fs2"
      by (simp add: write_outputs_def split: sum.splits)
    with k2 show ?thesis by simp
  qed
qed

lemma write_outputs_success:
  assumes "write_outputs env ip od m srcs fs = Inr (st, fs')"
  shows "fs' ip = None
       \<and> (\<exists>fs1 fs2. mkdir (mkdir_error env) od fs = Inr fs1
            \<and> save_stems env od (samplerate m) srcs (enumerate 0 (sources m)) [] fs1
                 = Inr (st, fs2)
            \<and> fs' = fs2(ip := None))"
  using assms
  by (auto simp: write_outputs_def unlink_missing_ok_def
      split: sum.splits prod.splits option.splits node.splits)

text \<open>
  Claim C8. With the input file staged, the worker removes it exactly when the body of the
  \<open>try\<close> runs to its end: then the job is completed, and the files are those left by
  \<open>mkdir\<close> and the saving of all stems, with the input path removed. When the body raises,
  the input file is still there and the job, if it is in the dictionary, is failed. When the
  failure comes before the saving step (the job is gone, the model is missing, the audio does
  not load or normalise, the model raises) no file or directory has changed, so no output
  directory was made.
\<close>

theorem input_removed_only_on_success:
  assumes staged: "files s input_path \<noteq> None"
  shows "((\<exists>s'. process_separation_try env jid input_path output_dir s = Inr s')
           \<longleftrightarrow> files (snd (process_separation env jid input_path output_dir s)) input_path = None)
       \<and> (\<forall>s'. process_separation_try env jid input_path output_dir s = Inr s' \<longrightarrow>
             (\<exists>j m srcs st fs1 fs2. jobs s' jid = Some j \<and> status j = ''completed''
                \<and> stems j = Some st \<and> separator s = Some m
                \<and> mkdir (mkdir_error env) output_dir (files s) = Inr fs1
                \<and> save_stems env output_dir (samplerate m) srcs (enumerate 0 (sources m)) [] fs1
                     = Inr (st, fs2)
                \<and> files s' = fs2(input_path := None)))
       \<and> (\<forall>e s1. process_separation_try env jid input_path output_dir s = Inl (e, s1) \<longrightarrow>
             files (snd (process_separation env jid input_path output_dir s)) input_path \<noteq> None
             \<and> (\<forall>j. jobs (snd (process_separation env jid input_path output_dir s)) jid = Some j
                    \<longrightarrow> status j = ''failed''))
       \<and> (jobs s jid = None \<or> separator s = None
            \<or> (\<exists>m e. separator s = Some m \<and>
                  (load_audio env m = Inl e
                   \<or> (\<exists>w. load_audio env m = Inr w \<and> apply_model env w = Inl e))) \<longrightarrow>
          files (snd (process_separation env jid input_path output_dir s)) = files s)"
proof (cases "jobs s jid")
  case None
  then have "process_separation_try env jid input_path output_dir s = Inl (KeyError jid, s)"
    by (simp add: process_separation_try_def start_processing_absent)
  with None staged show ?thesis by (simp add: process_separation_absent)
next
  case (Some r)
  note job = this
  let ?res = "snd (process_separation env jid input_path output_dir s)"
  note tr = process_separation_try_present [OF job, of env input_path output_dir]
  note fin = process_separation_present [OF job, of env input_path output_dir]
  show ?thesis
  proof (cases "separator s")
    case None
    with tr fin job staged show ?thesis by (simp add: Let_def)
  next
    case (Some m)
    note sep = this
    show ?thesis
    proof (cases "load_audio env m")
      case (Inl e)
      with tr fin job staged sep show ?thesis by (simp add: Let_def)
    next
      case (Inr w)
      note ld = this
      show ?thesis
      proof (cases "apply_model env w")
        case (Inl e)
        with tr fin job staged sep ld show ?thesis by (simp add: Let_def)
      next
        case (Inr srcs)
        note ap = this
        show ?thesis
        proof (cases "write_outputs env input_path output_dir m srcs (files s)")
          case (Inl x)
          obtain e fs where x: "x = (e, fs)" by (cases x)
          from write_outputs_failure_keeps [of env input_path output_dir m srcs "files s" e fs input_path]
            Inl x staged have "fs input_path \<noteq> None" by simp
          with tr fin job sep ld ap Inl x show ?thesis by (simp add: Let_def)
        next
          case (Inr y)
          obtain st fs where y: "y = (st, fs)" by (cases y)
          from write_outputs_success [of env input_path output_dir m srcs "files s" st fs] Inr y
          have "fs input_path = None"
            and "\<exists>fs1 fs2. mkdir (mkdir_error env) output_dir (files s) = Inr fs1
              \<and> save_stems env output_dir (samplerate m) srcs (enumerate 0 (sources m)) [] fs1
                   = Inr (st, fs2)
              \<and> fs = fs2(input_path := None)"
            by simp_all
          with tr fin job sep ld ap Inr y show ?thesis by (auto simp: Let_def)
        qed
      qed
    qed
  qed
qed


lemma example_submitted_input:
  "files (prog example_submitted) ''/d/input/j1_a.wav'' = Some (File (Uploaded [82, 73, 70, 70]))"
  by (simp add: example_submitted_def example_defs service_defs)

lemma example_try_succeeds:
  "\<exists>s'. process_separation_try example_env ''j1'' ''/d/input/j1_a.wav'' ''/d/output/j1''
          (prog example_submitted) = Inr s'"
  by (simp add: example_submitted_def example_defs service_defs)

theorem input_removed_only_on_success_witness:
  "files (prog example_submitted) ''/d/input/j1_a.wav'' \<noteq> None
   \<and> files (snd (process_separation example_env_undecodable ''j1'' ''/d/input/j1_a.wav''
                   ''/d/output/j1'' (prog example_submitted)))
       = files (prog example_submitted)
   \<and> files (snd (process_separation example_env ''j1'' ''/d/input/j1_a.wav''
                   ''/d/output/j1'' (prog example_submitted))) ''/d/input/j1_a.wav'' = None"
proof -
  have staged: "files (prog example_submitted) ''/d/input/j1_a.wav'' \<noteq> None"
    by (simp add: example_submitted_input)
  from input_removed_only_on_success [OF staged, of example_env_undecodable "''j1''"
      "''/d/output/j1''"] example_submitted_separator example_undecodable_load
  have 1: "files (snd (process_separation example_env_undecodable ''j1'' ''/d/input/j1_a.wav''
                   ''/d/output/j1'' (prog example_submitted)))
       = files (prog example_submitted)"
    by blast
  from input_removed_only_on_success [OF staged, of example_env "''j1''" "''/d/output/j1''"]
    example_try_succeeds
  have 2: "files (snd (process_separation example_env ''j1'' ''/d/input/j1_a.wav''
                   ''/d/output/j1'' (prog example_submitted))) ''/d/input/j1_a.wav'' = None"
    by blast
  from staged 1 2 show ?thesis by blast
qed

subsection \<open>Normalisation\<close>











end
